theory Spec2Isabelle
  imports Complex_Main "HOL-Library.AList"
begin

section \<open>Values shared by the whole application\<close>

text \<open>
  Python \<open>str\<close> values are modelled as \<open>string\<close>. Wall-clock readings (\<open>time()\<close>,
  \<open>datetime.now(UTC)\<close>) are modelled as \<open>real\<close> seconds since the epoch; the rounding of
  IEEE doubles is not part of the model. Every handler reads the clock once: the reading
  is the argument \<open>now\<close>.
\<close>

type_synonym timestamp = real

text \<open>Python's \<open>int(x)\<close> on a float truncates towards zero.\<close>

definition py_int :: "real \<Rightarrow> int" where
  "py_int x = (if 0 \<le> x then \<lfloor>x\<rfloor> else \<lceil>x\<rceil>)"

text \<open>
  A response header value. \<open>HInt i\<close> stands for the decimal text \<open>str(i)\<close> of the
  integer \<open>i\<close>.
\<close>

datatype header_value = HStr string | HInt int

text \<open>
  Everything a handler can raise: FastAPI's \<open>HTTPException\<close> (status, detail, headers)
  and the built-in exceptions that escape uncaught. In the \<open>detail\<close> of an
  \<open>HTTPException\<close>, \<open>FileTooLarge size_mb limit\<close> stands for the f-string
  \<open>File size {size_mb:.2f}MB exceeds limit of {limit}MB\<close> and \<open>BulkFailed e\<close> for
  \<open>Bulk user creation failed: {str(e)}\<close>; their formatting is not modelled.
\<close>

datatype detail = Text string | FileTooLarge real int | BulkFailed exn
and exn =
    HTTPException nat detail "(string \<times> header_value) list"
  | IndexError
  | KeyError string
  | ValueError string
  | ValidationError

definition HTTP_401_UNAUTHORIZED :: nat where "HTTP_401_UNAUTHORIZED = 401"
definition HTTP_403_FORBIDDEN :: nat where "HTTP_403_FORBIDDEN = 403"
definition HTTP_404_NOT_FOUND :: nat where "HTTP_404_NOT_FOUND = 404"
definition HTTP_409_CONFLICT :: nat where "HTTP_409_CONFLICT = 409"
definition HTTP_400_BAD_REQUEST :: nat where "HTTP_400_BAD_REQUEST = 400"
definition HTTP_413_REQUEST_ENTITY_TOO_LARGE :: nat where
  "HTTP_413_REQUEST_ENTITY_TOO_LARGE = 413"
definition HTTP_415_UNSUPPORTED_MEDIA_TYPE :: nat where
  "HTTP_415_UNSUPPORTED_MEDIA_TYPE = 415"
definition HTTP_429_TOO_MANY_REQUESTS :: nat where "HTTP_429_TOO_MANY_REQUESTS = 429"
definition HTTP_500_INTERNAL_SERVER_ERROR :: nat where
  "HTTP_500_INTERNAL_SERVER_ERROR = 500"

text \<open>The single quote of the f-strings \<open>... '{user_id}' ...\<close>.\<close>

definition quoted :: "string \<Rightarrow> string" where
  "quoted s = [CHR 0x27] @ s @ [CHR 0x27]"

section \<open>Configuration (\<open>app/config.py\<close>)\<close>

record settings =
  api_env :: string
  jwt_secret :: string
  jwt_algorithm :: string
  access_token_expire_minutes :: int
  refresh_token_expire_days :: int
  rate_limit_per_minute :: int
  max_file_size_mb :: int
  allowed_file_types :: "string list"

text \<open>The defaults of \<open>get_settings\<close> when no environment variable is set.\<close>

definition default_settings :: settings where
  "default_settings =
     \<lparr> api_env = ''dev'',
       jwt_secret = ''dev_secret_change_in_production_!!!'',
       jwt_algorithm = ''HS256'',
       access_token_expire_minutes = 30,
       refresh_token_expire_days = 7,
       rate_limit_per_minute = 10,
       max_file_size_mb = 10,
       allowed_file_types =
         [''image/jpeg'', ''image/png'', ''image/gif'', ''application/pdf'',
          ''text/plain'', ''text/csv''] \<rparr>"

section \<open>Rate limiting (\<open>check_rate_limit\<close> in \<open>app/main.py\<close>)\<close>

text \<open>What \<open>check_rate_limit\<close> reads of the Starlette \<open>Request\<close>.\<close>

record request =
  http_method :: string
  url_path :: string

text \<open>
  \<open>rate_limit_store\<close> is a \<open>defaultdict(list)\<close>: a key never written reads as the
  empty list, so the store is a total function.
\<close>

type_synonym rate_store = "string \<Rightarrow> timestamp list"

definition rate_key :: "request \<Rightarrow> string \<Rightarrow> string" where
  "rate_key req user_id = user_id @ '':'' @ (http_method req @ '':'' @ url_path req)"

definition prune :: "timestamp \<Rightarrow> timestamp list \<Rightarrow> timestamp list" where
  "prune now tss = filter (\<lambda>ts. now - ts < 60) tss"

text \<open>
  The store is pruned in place before the test, so the pruning survives a rejection.
  \<open>rate_limit_store[key][0]\<close> raises \<open>IndexError\<close> on an empty list.
\<close>

definition check_rate_limit ::
  "settings \<Rightarrow> request \<Rightarrow> string \<Rightarrow> timestamp \<Rightarrow> rate_store \<Rightarrow> (exn + unit) \<times> rate_store"
where
  "check_rate_limit cfg req user_id now store =
     (let key = rate_key req user_id;
          store1 = store(key := prune now (store key))
      in if rate_limit_per_minute cfg \<le> int (length (store1 key)) then
           (case store1 key of
              [] \<Rightarrow> (Inl IndexError, store1)
            | ts0 # _ \<Rightarrow>
                (let reset_time = py_int (ts0 + 60)
                 in (Inl (HTTPException HTTP_429_TOO_MANY_REQUESTS (Text ''Rate limit exceeded'')
                       [(''X-RateLimit-Limit'', HInt (rate_limit_per_minute cfg)),
                        (''X-RateLimit-Remaining'', HStr ''0''),
                        (''X-RateLimit-Reset'', HInt reset_time)]),
                     store1)))
         else (Inr (), store1(key := store1 key @ [now])))"

text \<open>
  A run of consecutive checks of one key at the given clock readings: the outcomes in
  order, and the store left behind.
\<close>

fun check_all ::
  "settings \<Rightarrow> request \<Rightarrow> string \<Rightarrow> timestamp list \<Rightarrow> rate_store \<Rightarrow> (exn + unit) list \<times> rate_store"
where
  "check_all cfg req user_id [] store = ([], store)"
| "check_all cfg req user_id (now # nows) store =
     (let (r, store1) = check_rate_limit cfg req user_id now store;
          (rs, store2) = check_all cfg req user_id nows store1
      in (r # rs, store2))"

section \<open>External packages\<close>

subsection \<open>bcrypt\<close>

text \<open>
  \<open>bcrypt\<close> is a third-party package and not part of the repository. Its two entry points
  are parameters of the model: \<open>hashpw password salt\<close> and \<open>checkpw password hashed\<close>,
  each returning either the exception it raises or its result. The salt that
  \<open>bcrypt.gensalt()\<close> draws at random is an input of the handlers that hash a password.
\<close>

record bcrypt =
  hashpw :: "string \<Rightarrow> string \<Rightarrow> exn + string"
  checkpw :: "string \<Rightarrow> string \<Rightarrow> exn + bool"

text \<open>
  A stand-in used to evaluate the model on concrete inputs. It follows the package's
  documented behaviour as far as the shape of the hash goes: a string that does not start
  with a \<open>$2a$\<close>, \<open>$2b$\<close>, \<open>$2x$\<close> or \<open>$2y$\<close> prefix is no bcrypt hash, and both
  \<open>hashpw\<close> and \<open>checkpw\<close> raise \<open>ValueError("Invalid salt")\<close> on it. The Blowfish
  computation itself is replaced by a tagging of the password with the salt.
\<close>

definition bcrypt_prefixed :: "string \<Rightarrow> bool" where
  "bcrypt_prefixed h = (take 4 h \<in> {''$2a$'', ''$2b$'', ''$2x$'', ''$2y$''})"

definition toy_bcrypt :: bcrypt where
  "toy_bcrypt =
     \<lparr> hashpw = (\<lambda>password salt.
         if bcrypt_prefixed salt then Inr (take 29 salt @ password)
         else Inl (ValueError ''Invalid salt'')),
       checkpw = (\<lambda>password hashed.
         if bcrypt_prefixed hashed then Inr (take 29 hashed @ password = hashed)
         else Inl (ValueError ''Invalid salt'')) \<rparr>"

subsection \<open>PyJWT\<close>

text \<open>
  \<open>jwt\<close> (PyJWT) is a third-party package as well. Its tokens are modelled symbolically:
  a string handled by the authentication code is either the compact serialisation of a
  claim set signed with some key under some algorithm (\<open>Jws\<close>), or any other text
  (\<open>Plain\<close>). The serialisation is deterministic, so two \<open>Jws\<close> values are the same
  string exactly when claims (in order), key and algorithm agree.
\<close>

datatype jval = JStr string | JInt int

type_synonym payload = "(string \<times> jval) list"

datatype token = Jws payload string string | Plain string

text \<open>A claim value as handed to \<open>jwt.encode\<close>: a string or a \<open>datetime\<close>.\<close>

datatype pyval = PStr string | PDatetime timestamp

text \<open>
  \<open>jwt.encode\<close> replaces a \<open>datetime\<close> by its whole epoch seconds
  (\<open>timegm(utctimetuple())\<close>). The configured algorithm is assumed to be one the
  package supports with a shared secret (the default is HS256).
\<close>

definition jwt_encode :: "(string \<times> pyval) list \<Rightarrow> string \<Rightarrow> string \<Rightarrow> token" where
  "jwt_encode claims key algorithm =
     Jws (map (\<lambda>(k, v). (k, case v of PStr s \<Rightarrow> JStr s | PDatetime t \<Rightarrow> JInt \<lfloor>t\<rfloor>)) claims)
       key algorithm"

datatype jwt_error = ExpiredSignatureError | InvalidTokenError

text \<open>
  \<open>jwt.decode\<close>: structure, then algorithm, then signature, then the \<open>exp\<close> claim when
  there is one (expired when \<open>exp \<le> now\<close>, no leeway). All failures other than expiry
  are subclasses of \<open>InvalidTokenError\<close>. Registered claims other than \<open>exp\<close> are not
  modelled, and an \<open>exp\<close> that is not a JSON integer counts as invalid.
\<close>

definition jwt_decode :: "token \<Rightarrow> string \<Rightarrow> string list \<Rightarrow> timestamp \<Rightarrow> jwt_error + payload" where
  "jwt_decode tok key algorithms now =
     (case tok of
        Plain s \<Rightarrow> Inl InvalidTokenError
      | Jws claims k a \<Rightarrow>
          if a \<notin> set algorithms then Inl InvalidTokenError
          else if k \<noteq> key then Inl InvalidTokenError
          else (case map_of claims ''exp'' of
                  None \<Rightarrow> Inr claims
                | Some (JStr s) \<Rightarrow> Inl InvalidTokenError
                | Some (JInt e) \<Rightarrow>
                    if real_of_int e \<le> now then Inl ExpiredSignatureError else Inr claims))"

section \<open>Authentication (\<open>app/auth.py\<close>)\<close>

record TokenData =
  td_user_id :: string
  td_tenant_id :: string
  td_username :: string
  td_role :: string
  td_exp :: timestamp

definition hash_password :: "bcrypt \<Rightarrow> string \<Rightarrow> string \<Rightarrow> exn + string" where
  "hash_password lib salt password = hashpw lib password salt"

definition verify_password :: "bcrypt \<Rightarrow> string \<Rightarrow> string \<Rightarrow> exn + bool" where
  "verify_password lib plain_password hashed_password =
     checkpw lib plain_password hashed_password"

definition create_access_token ::
  "settings \<Rightarrow> timestamp \<Rightarrow> string \<Rightarrow> string \<Rightarrow> string \<Rightarrow> string \<Rightarrow> token"
where
  "create_access_token cfg now user_id tenant_id username role =
     (let expire = now + 60 * real_of_int (access_token_expire_minutes cfg)
      in jwt_encode
           [(''user_id'', PStr user_id),
            (''tenant_id'', PStr tenant_id),
            (''username'', PStr username),
            (''role'', PStr role),
            (''exp'', PDatetime expire),
            (''type'', PStr ''access'')]
           (jwt_secret cfg) (jwt_algorithm cfg))"

definition create_refresh_token :: "settings \<Rightarrow> timestamp \<Rightarrow> string \<Rightarrow> string \<Rightarrow> token" where
  "create_refresh_token cfg now user_id tenant_id =
     (let expire = now + 86400 * real_of_int (refresh_token_expire_days cfg)
      in jwt_encode
           [(''user_id'', PStr user_id),
            (''tenant_id'', PStr tenant_id),
            (''exp'', PDatetime expire),
            (''type'', PStr ''refresh'')]
           (jwt_secret cfg) (jwt_algorithm cfg))"

definition www_authenticate :: "(string \<times> header_value) list" where
  "www_authenticate = [(''WWW-Authenticate'', HStr ''Bearer'')]"

definition decode_token :: "settings \<Rightarrow> token \<Rightarrow> timestamp \<Rightarrow> exn + payload" where
  "decode_token cfg tok now =
     (case jwt_decode tok (jwt_secret cfg) [jwt_algorithm cfg] now of
        Inr claims \<Rightarrow> Inr claims
      | Inl ExpiredSignatureError \<Rightarrow>
          Inl (HTTPException HTTP_401_UNAUTHORIZED (Text ''Token has expired'') www_authenticate)
      | Inl InvalidTokenError \<Rightarrow>
          Inl (HTTPException HTTP_401_UNAUTHORIZED (Text ''Invalid token'') www_authenticate))"

text \<open>\<open>payload[key]\<close> raises \<open>KeyError\<close> on a missing key.\<close>

definition getitem :: "payload \<Rightarrow> string \<Rightarrow> exn + jval" where
  "getitem claims k = (case map_of claims k of None \<Rightarrow> Inl (KeyError k) | Some v \<Rightarrow> Inr v)"

text \<open>
  The construction of \<open>TokenData\<close>: the five subscripts are evaluated in order, then
  pydantic checks that the four \<open>str\<close> fields hold strings.
\<close>

definition token_data :: "payload \<Rightarrow> exn + TokenData" where
  "token_data claims =
     (case getitem claims ''user_id'' of Inl e \<Rightarrow> Inl e | Inr user_id \<Rightarrow>
     (case getitem claims ''tenant_id'' of Inl e \<Rightarrow> Inl e | Inr tenant_id \<Rightarrow>
     (case getitem claims ''username'' of Inl e \<Rightarrow> Inl e | Inr username \<Rightarrow>
     (case getitem claims ''role'' of Inl e \<Rightarrow> Inl e | Inr role \<Rightarrow>
     (case getitem claims ''exp'' of Inl e \<Rightarrow> Inl e | Inr expiry \<Rightarrow>
     (case (user_id, tenant_id, username, role, expiry) of
        (JStr u, JStr t, JStr n, JStr r, JInt e) \<Rightarrow>
          Inr \<lparr> td_user_id = u, td_tenant_id = t, td_username = n, td_role = r,
                td_exp = real_of_int e \<rparr>
      | _ \<Rightarrow> Inl ValidationError))))))"

text \<open>\<open>str.lower()\<close>, on the ASCII letters.\<close>

definition lower_char :: "char \<Rightarrow> char" where
  "lower_char c =
     (let n = (of_char c :: nat) in if 65 \<le> n \<and> n \<le> 90 then char_of (n + 32) else c)"

definition str_lower :: "string \<Rightarrow> string" where
  "str_lower s = map lower_char s"

text \<open>
  The \<open>Authorization\<close> header: \<open>None\<close> when it is absent or empty (\<open>not authorization\<close>),
  otherwise the fields that \<open>authorization.split()\<close> yields. The serialisation of a
  signed token is never the word \<open>bearer\<close>.
\<close>

type_synonym authorization = "token list option"

definition scheme_lower :: "token \<Rightarrow> string option" where
  "scheme_lower scheme = (case scheme of Plain s \<Rightarrow> Some (str_lower s) | Jws _ _ _ \<Rightarrow> None)"

definition get_current_user :: "settings \<Rightarrow> authorization \<Rightarrow> timestamp \<Rightarrow> exn + TokenData" where
  "get_current_user cfg authorization now =
     (case authorization of
        None \<Rightarrow>
          Inl (HTTPException HTTP_401_UNAUTHORIZED (Text ''Missing authorization header'')
                 www_authenticate)
      | Some [scheme, tok] \<Rightarrow>
          if scheme_lower scheme \<noteq> Some ''bearer'' then
            Inl (HTTPException HTTP_401_UNAUTHORIZED (Text ''Invalid authentication scheme'')
                   www_authenticate)
          else
            (case decode_token cfg tok now of
               Inl e \<Rightarrow> Inl e
             | Inr claims \<Rightarrow>
                 if map_of claims ''type'' \<noteq> Some (JStr ''access'') then
                   Inl (HTTPException HTTP_401_UNAUTHORIZED (Text ''Invalid token type'') [])
                 else token_data claims)
      | Some _ \<Rightarrow>
          Inl (HTTPException HTTP_401_UNAUTHORIZED
                 (Text ''Invalid authorization header format'') www_authenticate))"

definition require_admin :: "settings \<Rightarrow> authorization \<Rightarrow> timestamp \<Rightarrow> exn + TokenData" where
  "require_admin cfg authorization now =
     (case get_current_user cfg authorization now of
        Inl e \<Rightarrow> Inl e
      | Inr current_user \<Rightarrow>
          if td_role current_user \<noteq> ''admin'' then
            Inl (HTTPException HTTP_403_FORBIDDEN (Text ''Admin access required'') [])
          else Inr current_user)"

section \<open>The application state (\<open>app/main.py\<close>)\<close>

text \<open>
  The stored dictionaries are typed records here; a Python \<open>dict\<close> keeps its insertion
  order, so every store is an association list: \<open>AList.update\<close> overwrites in place or
  appends, \<open>AList.delete\<close> removes, \<open>map_of\<close> looks up.
\<close>

type_synonym bytes = string

record tenant =
  tn_id :: string
  tn_name :: string
  tn_created_at :: timestamp
  tn_is_active :: bool

record user =
  u_id :: string
  u_tenant_id :: string
  u_username :: string
  u_email :: string
  u_full_name :: string
  u_password_hash :: string
  u_role :: string
  u_created_at :: timestamp
  u_updated_at :: timestamp
  u_is_active :: bool

text \<open>A user record without its \<open>password_hash\<close> entry, as the handlers return it.\<close>

record user_out =
  o_id :: string
  o_tenant_id :: string
  o_username :: string
  o_email :: string
  o_full_name :: string
  o_role :: string
  o_created_at :: timestamp
  o_updated_at :: timestamp
  o_is_active :: bool

definition without_password_hash :: "user \<Rightarrow> user_out" where
  "without_password_hash u =
     \<lparr> o_id = u_id u, o_tenant_id = u_tenant_id u, o_username = u_username u,
       o_email = u_email u, o_full_name = u_full_name u, o_role = u_role u,
       o_created_at = u_created_at u, o_updated_at = u_updated_at u,
       o_is_active = u_is_active u \<rparr>"

record file_metadata =
  f_id :: string
  f_tenant_id :: string
  f_filename :: string
  f_content_type :: string
  f_size_bytes :: nat
  f_uploaded_by :: string
  f_uploaded_at :: timestamp

record state =
  tenants_db :: "(string \<times> tenant) list"
  users_db :: "(string \<times> user) list"
  files_db :: "(string \<times> file_metadata) list"
  file_storage :: "(string \<times> bytes) list"
  blacklisted_tokens :: "token set"
  rate_limit_store :: rate_store

definition initial_state :: state where
  "initial_state =
     \<lparr> tenants_db = [], users_db = [], files_db = [], file_storage = [],
       blacklisted_tokens = {}, rate_limit_store = (\<lambda>_. []) \<rparr>"

definition dict_values :: "('k \<times> 'v) list \<Rightarrow> 'v list" where
  "dict_values d = map snd d"

subsection \<open>Request and response bodies\<close>

text \<open>Request bodies are taken as pydantic has validated them.\<close>

record TenantRegister =
  tenant_name :: string
  admin_email :: string
  admin_username :: string
  admin_password :: string

record LoginRequest =
  login_username :: string
  login_password :: string

record UserCreate =
  new_username :: string
  new_email :: string
  new_full_name :: string
  new_role :: string

record UserUpdate =
  upd_email :: "string option"
  upd_full_name :: "string option"

record TokenPair =
  access_token :: token
  refresh_token :: token
  token_type :: string
  expires_in :: int

record 'a PaginatedResponse =
  page_data :: "'a list"
  page_number :: int
  page_size_of :: int
  total_count :: nat
  has_next :: bool
  has_prev :: bool

datatype response =
    HealthResponse string timestamp string string
  | RegisterResponse string string string
  | TokenPairResponse TokenPair
  | MessageResponse string
  | UserPage "user_out PaginatedResponse"
  | FilePage "file_metadata PaginatedResponse"
  | UserResponse user_out
  | UserListResponse "user_out list"
  | NoContent
  | FileMetadataResponse file_metadata
  | StreamingResponse bytes string "(string \<times> header_value) list"
  | TenantsResponse "tenant list" nat
  | StatsResponse nat nat nat nat

type_synonym outcome = "(exn + response) \<times> state"

text \<open>The slice \<open>xs[start:stop]\<close> of a Python list, for any two integers.\<close>

definition py_slice :: "'a list \<Rightarrow> int \<Rightarrow> int \<Rightarrow> 'a list" where
  "py_slice xs start stop =
     (let n = int (length xs);
          clamp = (\<lambda>i. if i < 0 then max 0 (n + i) else min n i)
      in take (nat (clamp stop - clamp start)) (drop (nat (clamp start)) xs))"

definition paginate :: "'a list \<Rightarrow> int \<Rightarrow> int \<Rightarrow> 'a PaginatedResponse" where
  "paginate items page page_size =
     (let total = length items;
          start_idx = (page - 1) * page_size;
          end_idx = start_idx + page_size
      in \<lparr> page_data = py_slice items start_idx end_idx,
            page_number = page,
            page_size_of = page_size,
            total_count = total,
            has_next = (end_idx < int total),
            has_prev = (1 < page) \<rparr>)"

text \<open>\<open>check_rate_limit\<close> working on the global \<open>rate_limit_store\<close>.\<close>

definition rate_limited :: "settings \<Rightarrow> request \<Rightarrow> string \<Rightarrow> timestamp \<Rightarrow> state \<Rightarrow> (exn + unit) \<times> state" where
  "rate_limited cfg req user_id now s =
     (case check_rate_limit cfg req user_id now (rate_limit_store s) of
        (r, store) \<Rightarrow> (r, s\<lparr>rate_limit_store := store\<rparr>))"

subsection \<open>Authentication endpoints\<close>

definition health_check :: "settings \<Rightarrow> timestamp \<Rightarrow> state \<Rightarrow> outcome" where
  "health_check cfg now s = (Inr (HealthResponse ''healthy'' now (api_env cfg) ''2.0.0''), s)"

text \<open>
  \<open>register_tenant\<close>: \<open>tenant_id\<close> and \<open>user_id\<close> are the two \<open>uuid4()\<close> draws, \<open>salt\<close> the
  \<open>gensalt()\<close> draw. The tenant is stored before the password is hashed.
\<close>

definition register_tenant ::
  "bcrypt \<Rightarrow> TenantRegister \<Rightarrow> string \<Rightarrow> string \<Rightarrow> string \<Rightarrow> timestamp \<Rightarrow> state \<Rightarrow> outcome"
where
  "register_tenant lib tenant_data tenant_id user_id salt now s =
     (if list_ex (\<lambda>tenant. str_lower (tn_name tenant) = str_lower (tenant_name tenant_data))
           (dict_values (tenants_db s)) then
        (Inl (HTTPException HTTP_409_CONFLICT
                (Text (''Tenant '' @ quoted (tenant_name tenant_data) @ '' already exists'')) []), s)
      else if list_ex (\<lambda>user. u_username user = admin_username tenant_data)
                (dict_values (users_db s)) then
        (Inl (HTTPException HTTP_409_CONFLICT
                (Text (''Username '' @ quoted (admin_username tenant_data) @ '' already exists'')) []), s)
      else
        (let s1 = s\<lparr>tenants_db := AList.update tenant_id
                       \<lparr> tn_id = tenant_id, tn_name = tenant_name tenant_data,
                         tn_created_at = now, tn_is_active = True \<rparr> (tenants_db s)\<rparr>
         in case hash_password lib salt (admin_password tenant_data) of
              Inl e \<Rightarrow> (Inl e, s1)
            | Inr hashed \<Rightarrow>
                (Inr (RegisterResponse ''Tenant registered successfully'' tenant_id user_id),
                 s1\<lparr>users_db := AList.update user_id
                       \<lparr> u_id = user_id, u_tenant_id = tenant_id,
                         u_username = admin_username tenant_data,
                         u_email = admin_email tenant_data,
                         u_full_name = ''Admin User'',
                         u_password_hash = hashed,
                         u_role = ''admin'',
                         u_created_at = now, u_updated_at = now,
                         u_is_active = True \<rparr> (users_db s1)\<rparr>)))"

definition token_pair :: "settings \<Rightarrow> timestamp \<Rightarrow> user \<Rightarrow> TokenPair" where
  "token_pair cfg now user =
     \<lparr> access_token =
         create_access_token cfg now (u_id user) (u_tenant_id user) (u_username user) (u_role user),
       refresh_token = create_refresh_token cfg now (u_id user) (u_tenant_id user),
       token_type = ''bearer'',
       expires_in = access_token_expire_minutes cfg * 60 \<rparr>"

definition login :: "settings \<Rightarrow> bcrypt \<Rightarrow> LoginRequest \<Rightarrow> timestamp \<Rightarrow> state \<Rightarrow> outcome" where
  "login cfg lib credentials now s =
     (case find (\<lambda>u. u_username u = login_username credentials) (dict_values (users_db s)) of
        None \<Rightarrow>
          (Inl (HTTPException HTTP_401_UNAUTHORIZED (Text ''Invalid username or password'') []), s)
      | Some user \<Rightarrow>
          (case verify_password lib (login_password credentials) (u_password_hash user) of
             Inl e \<Rightarrow> (Inl e, s)
           | Inr ok \<Rightarrow>
               if \<not> ok then
                 (Inl (HTTPException HTTP_401_UNAUTHORIZED
                         (Text ''Invalid username or password'') []), s)
               else if \<not> u_is_active user then
                 (Inl (HTTPException HTTP_403_FORBIDDEN
                         (Text ''User account is deactivated'') []), s)
               else (Inr (TokenPairResponse (token_pair cfg now user)), s)))"

text \<open>
  \<open>refresh_tokens\<close>. \<open>users_db.get(user_id)\<close> finds nothing when the claim is not a
  string, the keys of \<open>users_db\<close> being strings.
\<close>

definition refresh_tokens :: "settings \<Rightarrow> token \<Rightarrow> timestamp \<Rightarrow> state \<Rightarrow> outcome" where
  "refresh_tokens cfg presented now s =
     (case decode_token cfg presented now of
        Inl e \<Rightarrow> (Inl e, s)
      | Inr claims \<Rightarrow>
          if map_of claims ''type'' \<noteq> Some (JStr ''refresh'') then
            (Inl (HTTPException HTTP_401_UNAUTHORIZED (Text ''Invalid token type'') []), s)
          else if presented \<in> blacklisted_tokens s then
            (Inl (HTTPException HTTP_401_UNAUTHORIZED (Text ''Token has been revoked'') []), s)
          else
            (case getitem claims ''user_id'' of
               Inl e \<Rightarrow> (Inl e, s)
             | Inr user_id \<Rightarrow>
                 (case (case user_id of JStr uid \<Rightarrow> map_of (users_db s) uid | JInt _ \<Rightarrow> None) of
                    None \<Rightarrow>
                      (Inl (HTTPException HTTP_401_UNAUTHORIZED
                              (Text ''User not found or inactive'') []), s)
                  | Some user \<Rightarrow>
                      if \<not> u_is_active user then
                        (Inl (HTTPException HTTP_401_UNAUTHORIZED
                                (Text ''User not found or inactive'') []), s)
                      else
                        (Inr (TokenPairResponse (token_pair cfg now user)),
                         s\<lparr>blacklisted_tokens := insert presented (blacklisted_tokens s)\<rparr>))))"

definition logout :: "settings \<Rightarrow> authorization \<Rightarrow> timestamp \<Rightarrow> state \<Rightarrow> outcome" where
  "logout cfg authorization now s =
     (case get_current_user cfg authorization now of
        Inl e \<Rightarrow> (Inl e, s)
      | Inr current_user \<Rightarrow> (Inr (MessageResponse ''Logged out successfully''), s))"

subsection \<open>User management endpoints\<close>

definition not_found :: "string \<Rightarrow> string \<Rightarrow> exn" where
  "not_found kind ident =
     HTTPException HTTP_404_NOT_FOUND (Text (kind @ '' with id '' @ quoted ident @ '' not found'')) []"

definition list_users ::
  "settings \<Rightarrow> request \<Rightarrow> int \<Rightarrow> int \<Rightarrow> bool \<Rightarrow> authorization \<Rightarrow> timestamp \<Rightarrow> state \<Rightarrow> outcome"
where
  "list_users cfg req page page_size active_only authorization now s =
     (case get_current_user cfg authorization now of
        Inl e \<Rightarrow> (Inl e, s)
      | Inr current_user \<Rightarrow>
          (case rate_limited cfg req (td_user_id current_user) now s of
             (Inl e, s1) \<Rightarrow> (Inl e, s1)
           | (Inr _, s1) \<Rightarrow>
               (let tenant_users =
                      filter (\<lambda>u. u_tenant_id u = td_tenant_id current_user)
                        (dict_values (users_db s1));
                    tenant_users =
                      (if active_only then filter u_is_active tenant_users else tenant_users)
                in (Inr (UserPage (paginate (map without_password_hash tenant_users)
                                     page page_size)), s1))))"

text \<open>
  The duplicate check shared by \<open>create_user\<close> and \<open>create_users_bulk\<close>: the stored
  users are visited in order, the username is compared before the email.
\<close>

fun duplicate_of :: "UserCreate \<Rightarrow> user list \<Rightarrow> exn option" where
  "duplicate_of user_data [] = None"
| "duplicate_of user_data (user # users) =
     (if u_username user = new_username user_data then
        Some (HTTPException HTTP_409_CONFLICT
                (Text (''Username '' @ quoted (new_username user_data) @ '' already exists'')) [])
      else if u_email user = new_email user_data then
        Some (HTTPException HTTP_409_CONFLICT
                (Text (''Email '' @ quoted (new_email user_data) @ '' already exists'')) [])
      else duplicate_of user_data users)"

definition new_user :: "UserCreate \<Rightarrow> string \<Rightarrow> string \<Rightarrow> string \<Rightarrow> timestamp \<Rightarrow> user" where
  "new_user user_data user_id tenant hashed now =
     \<lparr> u_id = user_id, u_tenant_id = tenant,
       u_username = new_username user_data,
       u_email = new_email user_data,
       u_full_name = new_full_name user_data,
       u_password_hash = hashed,
       u_role = new_role user_data,
       u_created_at = now, u_updated_at = now,
       u_is_active = True \<rparr>"

definition create_user ::
  "settings \<Rightarrow> bcrypt \<Rightarrow> request \<Rightarrow> UserCreate \<Rightarrow> string \<Rightarrow> string \<Rightarrow> authorization \<Rightarrow>
   timestamp \<Rightarrow> state \<Rightarrow> outcome"
where
  "create_user cfg lib req user_data user_id salt authorization now s =
     (case get_current_user cfg authorization now of
        Inl e \<Rightarrow> (Inl e, s)
      | Inr current_user \<Rightarrow>
          (case rate_limited cfg req (td_user_id current_user) now s of
             (Inl e, s1) \<Rightarrow> (Inl e, s1)
           | (Inr _, s1) \<Rightarrow>
               (case duplicate_of user_data (dict_values (users_db s1)) of
                  Some e \<Rightarrow> (Inl e, s1)
                | None \<Rightarrow>
                    (case hash_password lib salt ''TempPassword123!'' of
                       Inl e \<Rightarrow> (Inl e, s1)
                     | Inr hashed \<Rightarrow>
                         (let created = new_user user_data user_id
                                          (td_tenant_id current_user) hashed now
                          in (Inr (UserResponse (without_password_hash created)),
                              s1\<lparr>users_db := AList.update user_id created (users_db s1)\<rparr>))))))"

definition get_user ::
  "settings \<Rightarrow> request \<Rightarrow> string \<Rightarrow> authorization \<Rightarrow> timestamp \<Rightarrow> state \<Rightarrow> outcome"
where
  "get_user cfg req user_id authorization now s =
     (case get_current_user cfg authorization now of
        Inl e \<Rightarrow> (Inl e, s)
      | Inr current_user \<Rightarrow>
          (case rate_limited cfg req (td_user_id current_user) now s of
             (Inl e, s1) \<Rightarrow> (Inl e, s1)
           | (Inr _, s1) \<Rightarrow>
               (case map_of (users_db s1) user_id of
                  None \<Rightarrow> (Inl (not_found ''User'' user_id), s1)
                | Some user \<Rightarrow>
                    if u_tenant_id user \<noteq> td_tenant_id current_user then
                      (Inl (not_found ''User'' user_id), s1)
                    else (Inr (UserResponse (without_password_hash user)), s1))))"

text \<open>
  \<open>update_user\<close>: \<open>if user_data.email\<close> is the truth value of an optional string, false
  for \<open>None\<close> and for the empty string.
\<close>

definition truthy :: "string option \<Rightarrow> bool" where
  "truthy v = (case v of None \<Rightarrow> False | Some x \<Rightarrow> x \<noteq> [])"

definition or_empty :: "string option \<Rightarrow> string" where
  "or_empty v = (case v of None \<Rightarrow> [] | Some x \<Rightarrow> x)"

definition update_user ::
  "settings \<Rightarrow> request \<Rightarrow> string \<Rightarrow> UserUpdate \<Rightarrow> authorization \<Rightarrow> timestamp \<Rightarrow> state \<Rightarrow> outcome"
where
  "update_user cfg req user_id user_data authorization now s =
     (case get_current_user cfg authorization now of
        Inl e \<Rightarrow> (Inl e, s)
      | Inr current_user \<Rightarrow>
          (case rate_limited cfg req (td_user_id current_user) now s of
             (Inl e, s1) \<Rightarrow> (Inl e, s1)
           | (Inr _, s1) \<Rightarrow>
               (case map_of (users_db s1) user_id of
                  None \<Rightarrow> (Inl (not_found ''User'' user_id), s1)
                | Some user \<Rightarrow>
                    if u_tenant_id user \<noteq> td_tenant_id current_user then
                      (Inl (not_found ''User'' user_id), s1)
                    else if truthy (upd_email user_data)
                          \<and> upd_email user_data \<noteq> Some (u_email user)
                          \<and> list_ex (\<lambda>(uid, u). uid \<noteq> user_id \<and> Some (u_email u) = upd_email user_data)
                                (users_db s1) then
                      (Inl (HTTPException HTTP_409_CONFLICT
                              (Text (''Email '' @ quoted (or_empty (upd_email user_data))
                                       @ '' already exists'')) []), s1)
                    else
                      (let user1 = (if truthy (upd_email user_data)
                                    then user\<lparr>u_email := or_empty (upd_email user_data)\<rparr> else user);
                           user2 = (case upd_full_name user_data of
                                      None \<Rightarrow> user1
                                    | Some full_name \<Rightarrow> user1\<lparr>u_full_name := full_name\<rparr>);
                           user3 = user2\<lparr>u_updated_at := now\<rparr>
                       in (Inr (UserResponse (without_password_hash user3)),
                           s1\<lparr>users_db := AList.update user_id user3 (users_db s1)\<rparr>)))))"

definition delete_user ::
  "settings \<Rightarrow> request \<Rightarrow> string \<Rightarrow> authorization \<Rightarrow> timestamp \<Rightarrow> state \<Rightarrow> outcome"
where
  "delete_user cfg req user_id authorization now s =
     (case get_current_user cfg authorization now of
        Inl e \<Rightarrow> (Inl e, s)
      | Inr current_user \<Rightarrow>
          (case rate_limited cfg req (td_user_id current_user) now s of
             (Inl e, s1) \<Rightarrow> (Inl e, s1)
           | (Inr _, s1) \<Rightarrow>
               (case map_of (users_db s1) user_id of
                  None \<Rightarrow> (Inl (not_found ''User'' user_id), s1)
                | Some user \<Rightarrow>
                    if u_tenant_id user \<noteq> td_tenant_id current_user then
                      (Inl (not_found ''User'' user_id), s1)
                    else
                      (Inr NoContent,
                       s1\<lparr>users_db := AList.update user_id
                             (user\<lparr>u_is_active := False, u_updated_at := now\<rparr>) (users_db s1)\<rparr>))))"

text \<open>
  \<open>create_users_bulk\<close> runs one coroutine per entry under \<open>asyncio.gather\<close>. Every
  coroutine performs its duplicate check before the first one resumes from its sleep, so
  all checks see the store as it was; \<open>gather\<close> hands the first exception to the handler
  and leaves the other coroutines running, so every entry that passed its check is still
  stored. The model runs the whole request in one step. Each entry comes with its
  \<open>uuid4()\<close> and \<open>gensalt()\<close> draws.
\<close>

type_synonym bulk_entry = "UserCreate \<times> string \<times> string"

definition bulk_outcome :: "bcrypt \<Rightarrow> user list \<Rightarrow> string \<Rightarrow> timestamp \<Rightarrow> bulk_entry \<Rightarrow> exn + user" where
  "bulk_outcome lib existing tenant now entry =
     (case entry of (user_data, user_id, salt) \<Rightarrow>
        (case duplicate_of user_data existing of
           Some e \<Rightarrow> Inl e
         | None \<Rightarrow>
             (case hash_password lib salt ''TempPassword123!'' of
                Inl e \<Rightarrow> Inl e
              | Inr hashed \<Rightarrow> Inr (new_user user_data user_id tenant hashed now))))"

fun store_users :: "(exn + user) list \<Rightarrow> (string \<times> user) list \<Rightarrow> (string \<times> user) list" where
  "store_users [] db = db"
| "store_users (Inl e # rs) db = store_users rs db"
| "store_users (Inr u # rs) db = store_users rs (AList.update (u_id u) u db)"

fun created_users :: "(exn + user) list \<Rightarrow> user list" where
  "created_users [] = []"
| "created_users (Inl e # rs) = created_users rs"
| "created_users (Inr u # rs) = u # created_users rs"

definition is_duplicate :: "UserCreate \<Rightarrow> user list \<Rightarrow> bool" where
  "is_duplicate user_data existing = (duplicate_of user_data existing \<noteq> None)"

definition bulk_error :: "user list \<Rightarrow> bulk_entry list \<Rightarrow> (exn + user) list \<Rightarrow> exn option" where
  "bulk_error existing entries results =
     (case find (\<lambda>(user_data, _, _). is_duplicate user_data existing) entries of
        Some (user_data, _, _) \<Rightarrow> duplicate_of user_data existing
      | None \<Rightarrow>
          (case find isl results of
             Some (Inl (HTTPException st d hs)) \<Rightarrow> Some (HTTPException st d hs)
           | Some (Inl e) \<Rightarrow>
               Some (HTTPException HTTP_500_INTERNAL_SERVER_ERROR (BulkFailed e) [])
           | _ \<Rightarrow> None))"

definition create_users_bulk ::
  "settings \<Rightarrow> bcrypt \<Rightarrow> request \<Rightarrow> bulk_entry list \<Rightarrow> authorization \<Rightarrow> timestamp \<Rightarrow> state \<Rightarrow> outcome"
where
  "create_users_bulk cfg lib req users_data authorization now s =
     (case get_current_user cfg authorization now of
        Inl e \<Rightarrow> (Inl e, s)
      | Inr current_user \<Rightarrow>
          (case rate_limited cfg req (td_user_id current_user) now s of
             (Inl e, s1) \<Rightarrow> (Inl e, s1)
           | (Inr _, s1) \<Rightarrow>
               if 50 < length users_data then
                 (Inl (HTTPException HTTP_400_BAD_REQUEST
                         (Text ''Cannot create more than 50 users at once'') []), s1)
               else
                 (let existing = dict_values (users_db s1);
                      results = map (bulk_outcome lib existing (td_tenant_id current_user) now)
                                  users_data;
                      s2 = s1\<lparr>users_db := store_users results (users_db s1)\<rparr>
                  in case bulk_error existing users_data results of
                       Some e \<Rightarrow> (Inl e, s2)
                     | None \<Rightarrow>
                         (Inr (UserListResponse
                                 (map without_password_hash (created_users results))), s2))))"

subsection \<open>File management endpoints\<close>

definition upload_file ::
  "settings \<Rightarrow> request \<Rightarrow> string \<Rightarrow> string \<Rightarrow> bytes \<Rightarrow> string \<Rightarrow> authorization \<Rightarrow> timestamp \<Rightarrow>
   state \<Rightarrow> outcome"
where
  "upload_file cfg req filename content_type content file_id authorization now s =
     (case get_current_user cfg authorization now of
        Inl e \<Rightarrow> (Inl e, s)
      | Inr current_user \<Rightarrow>
          (case rate_limited cfg req (td_user_id current_user) now s of
             (Inl e, s1) \<Rightarrow> (Inl e, s1)
           | (Inr _, s1) \<Rightarrow>
               if content_type \<notin> set (allowed_file_types cfg) then
                 (Inl (HTTPException HTTP_415_UNSUPPORTED_MEDIA_TYPE
                         (Text (''File type '' @ quoted content_type @ '' not allowed'')) []), s1)
               else
                 (let size_mb = real (length content) / (1024 * 1024)
                  in if real_of_int (max_file_size_mb cfg) < size_mb then
                       (Inl (HTTPException HTTP_413_REQUEST_ENTITY_TOO_LARGE
                               (FileTooLarge size_mb (max_file_size_mb cfg)) []), s1)
                     else
                       (let file_meta =
                              \<lparr> f_id = file_id, f_tenant_id = td_tenant_id current_user,
                                f_filename = filename, f_content_type = content_type,
                                f_size_bytes = length content,
                                f_uploaded_by = td_user_id current_user,
                                f_uploaded_at = now \<rparr>
                        in (Inr (FileMetadataResponse file_meta),
                            s1\<lparr>files_db := AList.update file_id file_meta (files_db s1),
                               file_storage := AList.update file_id content (file_storage s1)\<rparr>)))))"

text \<open>\<open>if not content\<close> holds for a missing entry and for empty content.\<close>

definition download_file ::
  "settings \<Rightarrow> request \<Rightarrow> string \<Rightarrow> authorization \<Rightarrow> timestamp \<Rightarrow> state \<Rightarrow> outcome"
where
  "download_file cfg req file_id authorization now s =
     (case get_current_user cfg authorization now of
        Inl e \<Rightarrow> (Inl e, s)
      | Inr current_user \<Rightarrow>
          (case rate_limited cfg req (td_user_id current_user) now s of
             (Inl e, s1) \<Rightarrow> (Inl e, s1)
           | (Inr _, s1) \<Rightarrow>
               (case map_of (files_db s1) file_id of
                  None \<Rightarrow> (Inl (not_found ''File'' file_id), s1)
                | Some file_meta \<Rightarrow>
                    if f_tenant_id file_meta \<noteq> td_tenant_id current_user then
                      (Inl (not_found ''File'' file_id), s1)
                    else if \<not> truthy (map_of (file_storage s1) file_id) then
                      (Inl (HTTPException HTTP_404_NOT_FOUND
                              (Text ''File content not found'') []), s1)
                    else
                      (Inr (StreamingResponse
                              (or_empty (map_of (file_storage s1) file_id))
                              (f_content_type file_meta)
                              [(''Content-Disposition'',
                                HStr (''attachment; filename=\"'' @ f_filename file_meta @ ''\"''))]),
                       s1))))"

definition list_files ::
  "settings \<Rightarrow> request \<Rightarrow> int \<Rightarrow> int \<Rightarrow> authorization \<Rightarrow> timestamp \<Rightarrow> state \<Rightarrow> outcome"
where
  "list_files cfg req page page_size authorization now s =
     (case get_current_user cfg authorization now of
        Inl e \<Rightarrow> (Inl e, s)
      | Inr current_user \<Rightarrow>
          (case rate_limited cfg req (td_user_id current_user) now s of
             (Inl e, s1) \<Rightarrow> (Inl e, s1)
           | (Inr _, s1) \<Rightarrow>
               (let tenant_files =
                      filter (\<lambda>f. f_tenant_id f = td_tenant_id current_user)
                        (dict_values (files_db s1))
                in (Inr (FilePage (paginate tenant_files page page_size)), s1))))"

definition delete_file ::
  "settings \<Rightarrow> request \<Rightarrow> string \<Rightarrow> authorization \<Rightarrow> timestamp \<Rightarrow> state \<Rightarrow> outcome"
where
  "delete_file cfg req file_id authorization now s =
     (case get_current_user cfg authorization now of
        Inl e \<Rightarrow> (Inl e, s)
      | Inr current_user \<Rightarrow>
          (case rate_limited cfg req (td_user_id current_user) now s of
             (Inl e, s1) \<Rightarrow> (Inl e, s1)
           | (Inr _, s1) \<Rightarrow>
               (case map_of (files_db s1) file_id of
                  None \<Rightarrow> (Inl (not_found ''File'' file_id), s1)
                | Some file_meta \<Rightarrow>
                    if f_tenant_id file_meta \<noteq> td_tenant_id current_user then
                      (Inl (not_found ''File'' file_id), s1)
                    else
                      (Inr NoContent,
                       s1\<lparr>files_db := AList.delete file_id (files_db s1),
                          file_storage := AList.delete file_id (file_storage s1)\<rparr>))))"

subsection \<open>Admin endpoints\<close>

definition list_all_tenants :: "settings \<Rightarrow> request \<Rightarrow> authorization \<Rightarrow> timestamp \<Rightarrow> state \<Rightarrow> outcome" where
  "list_all_tenants cfg req authorization now s =
     (case require_admin cfg authorization now of
        Inl e \<Rightarrow> (Inl e, s)
      | Inr current_user \<Rightarrow>
          (case rate_limited cfg req (td_user_id current_user) now s of
             (Inl e, s1) \<Rightarrow> (Inl e, s1)
           | (Inr _, s1) \<Rightarrow>
               (Inr (TenantsResponse (dict_values (tenants_db s1)) (length (tenants_db s1))), s1)))"

definition get_system_stats :: "settings \<Rightarrow> request \<Rightarrow> authorization \<Rightarrow> timestamp \<Rightarrow> state \<Rightarrow> outcome" where
  "get_system_stats cfg req authorization now s =
     (case require_admin cfg authorization now of
        Inl e \<Rightarrow> (Inl e, s)
      | Inr current_user \<Rightarrow>
          (case rate_limited cfg req (td_user_id current_user) now s of
             (Inl e, s1) \<Rightarrow> (Inl e, s1)
           | (Inr _, s1) \<Rightarrow>
               (Inr (StatsResponse (length (tenants_db s1)) (length (users_db s1))
                       (length (files_db s1))
                       (sum_list (map length (dict_values (file_storage s1))))), s1)))"

subsection \<open>Test helper endpoint\<close>

definition reset_all_data :: "state \<Rightarrow> outcome" where
  "reset_all_data s =
     (Inr (MessageResponse ''All data reset successfully''),
      s\<lparr> tenants_db := [], users_db := [], files_db := [], file_storage := [],
         blacklisted_tokens := {}, rate_limit_store := (\<lambda>_. []) \<rparr>)"

subsection \<open>The routes\<close>

text \<open>
  One constructor per route of the application, carrying what the handler receives from
  the request and the random draws it makes.
\<close>

datatype operation =
    HealthCheck
  | RegisterTenant TenantRegister string string string
  | Login LoginRequest
  | RefreshTokens token
  | Logout authorization
  | ListUsers request int int bool authorization
  | CreateUser request UserCreate string string authorization
  | GetUser request string authorization
  | UpdateUser request string UserUpdate authorization
  | DeleteUser request string authorization
  | CreateUsersBulk request "bulk_entry list" authorization
  | UploadFile request string string bytes string authorization
  | DownloadFile request string authorization
  | ListFiles request int int authorization
  | DeleteFile request string authorization
  | ListAllTenants request authorization
  | GetSystemStats request authorization
  | ResetAllData

fun handle :: "settings \<Rightarrow> bcrypt \<Rightarrow> operation \<Rightarrow> timestamp \<Rightarrow> state \<Rightarrow> outcome" where
  "handle cfg lib HealthCheck now s = health_check cfg now s"
| "handle cfg lib (RegisterTenant tenant_data tenant_id user_id salt) now s =
     register_tenant lib tenant_data tenant_id user_id salt now s"
| "handle cfg lib (Login credentials) now s = login cfg lib credentials now s"
| "handle cfg lib (RefreshTokens presented) now s = refresh_tokens cfg presented now s"
| "handle cfg lib (Logout authorization) now s = logout cfg authorization now s"
| "handle cfg lib (ListUsers req page page_size active_only authorization) now s =
     list_users cfg req page page_size active_only authorization now s"
| "handle cfg lib (CreateUser req user_data user_id salt authorization) now s =
     create_user cfg lib req user_data user_id salt authorization now s"
| "handle cfg lib (GetUser req user_id authorization) now s =
     get_user cfg req user_id authorization now s"
| "handle cfg lib (UpdateUser req user_id user_data authorization) now s =
     update_user cfg req user_id user_data authorization now s"
| "handle cfg lib (DeleteUser req user_id authorization) now s =
     delete_user cfg req user_id authorization now s"
| "handle cfg lib (CreateUsersBulk req users_data authorization) now s =
     create_users_bulk cfg lib req users_data authorization now s"
| "handle cfg lib (UploadFile req filename content_type content file_id authorization) now s =
     upload_file cfg req filename content_type content file_id authorization now s"
| "handle cfg lib (DownloadFile req file_id authorization) now s =
     download_file cfg req file_id authorization now s"
| "handle cfg lib (ListFiles req page page_size authorization) now s =
     list_files cfg req page page_size authorization now s"
| "handle cfg lib (DeleteFile req file_id authorization) now s =
     delete_file cfg req file_id authorization now s"
| "handle cfg lib (ListAllTenants req authorization) now s =
     list_all_tenants cfg req authorization now s"
| "handle cfg lib (GetSystemStats req authorization) now s =
     get_system_stats cfg req authorization now s"
| "handle cfg lib ResetAllData now s = reset_all_data s"

text \<open>A sequence of requests, each with the clock reading at which it is served.\<close>

fun run :: "settings \<Rightarrow> bcrypt \<Rightarrow> (operation \<times> timestamp) list \<Rightarrow> state \<Rightarrow> state" where
  "run cfg lib [] s = s"
| "run cfg lib ((opn, now) # rest) s = run cfg lib rest (snd (handle cfg lib opn now s))"

section \<open>The error kinds of the specification\<close>

text \<open>
  The specification names the failures of refresh validation \<open>Expired\<close>, \<open>WrongKind\<close> and
  \<open>Revoked\<close>. These are the exceptions the handlers raise for them.
\<close>

definition Expired :: exn where
  "Expired = HTTPException HTTP_401_UNAUTHORIZED (Text ''Token has expired'') www_authenticate"

definition WrongKind :: exn where
  "WrongKind = HTTPException HTTP_401_UNAUTHORIZED (Text ''Invalid token type'') []"

definition Revoked :: exn where
  "Revoked = HTTPException HTTP_401_UNAUTHORIZED (Text ''Token has been revoked'') []"

text \<open>The claim set a token string carries; text that is no signed token carries none.\<close>

definition claims_of :: "token \<Rightarrow> payload" where
  "claims_of tok = (case tok of Jws claims _ _ \<Rightarrow> claims | Plain _ \<Rightarrow> [])"

section \<open>Sample data\<close>

text \<open>Concrete inputs on which the theorems below are evaluated.\<close>

definition files_request :: request where
  "files_request = \<lparr> http_method = ''GET'', url_path = ''/api/v1/files'' \<rparr>"

definition full_window :: rate_store where
  "full_window =
     (\<lambda>_. [])(''u1:GET:/api/v1/files'' :=
        [1000, 1001, 1002, 1003, 1004, 1005, 1006, 1007, 1008, 1009])"

definition user_request :: request where
  "user_request = \<lparr> http_method = ''GET'', url_path = ''/api/v1/users/u2'' \<rparr>"

definition file_request :: request where
  "file_request = \<lparr> http_method = ''GET'', url_path = ''/api/v1/files/f9'' \<rparr>"

definition alice :: user where
  "alice = \<lparr> u_id = ''u1'', u_tenant_id = ''t1'', u_username = ''alice'',
            u_email = ''alice@acme.test'', u_full_name = ''Admin User'',
            u_password_hash = ''$2b$12$abcdefghijklmnopqrstuvPassw0rd!'', u_role = ''admin'',
            u_created_at = 900, u_updated_at = 900, u_is_active = True \<rparr>"

definition bob :: user where
  "bob = \<lparr> u_id = ''u2'', u_tenant_id = ''t2'', u_username = ''bob'',
          u_email = ''bob@globex.test'', u_full_name = ''Bob'',
          u_password_hash = ''$2b$12$abcdefghijklmnopqrstuvTempPassword123!'',
          u_role = ''user'', u_created_at = 950, u_updated_at = 950, u_is_active = True \<rparr>"

definition globex_file :: file_metadata where
  "globex_file =
     \<lparr> f_id = ''f9'', f_tenant_id = ''t2'', f_filename = ''plan.pdf'',
       f_content_type = ''application/pdf'', f_size_bytes = 4, f_uploaded_by = ''u2'',
       f_uploaded_at = 960 \<rparr>"

text \<open>One tenant with its admin; then a second tenant with a user and a file.\<close>

definition acme_state :: state where
  "acme_state = initial_state\<lparr> users_db := [(''u1'', alice)] \<rparr>"

definition two_tenant_state :: state where
  "two_tenant_state =
     initial_state\<lparr> users_db := [(''u1'', alice), (''u2'', bob)],
       files_db := [(''f9'', globex_file)], file_storage := [(''f9'', ''%PDF'')] \<rparr>"

text \<open>The tokens a login of alice at time 1000 returns, and her header.\<close>

definition alice_access :: token where
  "alice_access = create_access_token default_settings 1000 ''u1'' ''t1'' ''alice'' ''admin''"

definition alice_refresh :: token where
  "alice_refresh = create_refresh_token default_settings 1000 ''u1'' ''t1''"

definition bearer :: "token \<Rightarrow> authorization" where
  "bearer tok = Some [Plain ''Bearer'', tok]"

definition alice_data :: TokenData where
  "alice_data =
     \<lparr> td_user_id = ''u1'', td_tenant_id = ''t1'', td_username = ''alice'',
       td_role = ''admin'', td_exp = 2800 \<rparr>"

text \<open>A state in which alice's refresh token is already revoked.\<close>

definition revoked_state :: state where
  "revoked_state = acme_state\<lparr> blacklisted_tokens := {alice_refresh} \<rparr>"

text \<open>
  A well-signed refresh token for bob whose claim set also carries a username and the
  role \<open>admin\<close>, which bob's record does not have.
\<close>

definition stale_refresh :: token where
  "stale_refresh =
     Jws [(''user_id'', JStr ''u2''), (''tenant_id'', JStr ''t2''),
          (''username'', JStr ''robert''), (''role'', JStr ''admin''),
          (''exp'', JInt 605800), (''type'', JStr ''refresh'')]
       (jwt_secret default_settings) (jwt_algorithm default_settings)"

definition alice_login :: LoginRequest where
  "alice_login = \<lparr> login_username = ''alice'', login_password = ''Passw0rd!'' \<rparr>"

definition between_ops :: "(operation \<times> timestamp) list" where
  "between_ops = [(Login alice_login, 2100), (Logout (bearer alice_access), 2200)]"



section \<open>Rate limiting\<close>

lemma check_rate_limit_admit:
  assumes "int (length (prune now (store (rate_key req uid)))) < rate_limit_per_minute cfg"
  shows "check_rate_limit cfg req uid now store =
           (Inr (), store(rate_key req uid := prune now (store (rate_key req uid)) @ [now]))"
  using assms by (simp add: check_rate_limit_def Let_def)

lemma check_rate_limit_reject:
  assumes "rate_limit_per_minute cfg \<le> int (length (prune now (store (rate_key req uid))))"
    and "0 < rate_limit_per_minute cfg"
  shows "\<exists>hs. check_rate_limit cfg req uid now store =
           (Inl (HTTPException HTTP_429_TOO_MANY_REQUESTS (Text ''Rate limit exceeded'') hs),
            store(rate_key req uid := prune now (store (rate_key req uid))))"
proof (cases "prune now (store (rate_key req uid))")
  case Nil
  with assms show ?thesis by simp
next
  case (Cons ts0 rest)
  with assms(1) show ?thesis
    by (simp add: check_rate_limit_def Let_def)
qed

lemma prune_all_fresh: "\<forall>ts \<in> set tss. now - ts < 60 \<Longrightarrow> prune now tss = tss"
  by (simp add: prune_def)

lemma prune_all_stale: "\<forall>ts \<in> set tss. 60 \<le> now - ts \<Longrightarrow> prune now tss = []"
  by (induction tss) (auto simp: prune_def)

lemma check_all_admits:
  assumes "store (rate_key req uid) = pre"
    and "\<forall>a \<in> set pre \<union> set nows. \<forall>b \<in> set pre \<union> set nows. a - b < 60"
    and "int (length pre + length nows) \<le> rate_limit_per_minute cfg"
  shows "check_all cfg req uid nows store =
           (replicate (length nows) (Inr ()), store(rate_key req uid := pre @ nows))"
  using assms
proof (induction nows arbitrary: store pre)
  case Nil
  then show ?case by auto
next
  case (Cons now nows)
  let ?k = "rate_key req uid"
  have pr: "prune now (store ?k) = pre"
    using Cons.prems(1,2) by (intro prune_all_fresh[THEN trans]) auto
  have step: "check_rate_limit cfg req uid now store = (Inr (), store(?k := pre @ [now]))"
    using check_rate_limit_admit[of now store req uid cfg] pr Cons.prems(3) by simp
  have "check_all cfg req uid nows (store(?k := pre @ [now])) =
          (replicate (length nows) (Inr ()), (store(?k := pre @ [now]))(?k := (pre @ [now]) @ nows))"
    using Cons.prems by (intro Cons.IH) auto
  with step show ?case by (simp add: fun_eq_iff)
qed

text \<open>
  With a positive limit the window behaves as a sliding window should: starting from an
  empty window, as many calls as the limit allows, all within sixty seconds of each other,
  are admitted and recorded; one more call inside the window is answered with status 429
  and leaves the record as it is; a call made once all of them are sixty seconds old is
  admitted again and is then the only entry.
\<close>

lemma sliding_window_positive_limit:
  assumes limit: "0 < rate_limit_per_minute cfg"
    and len: "int (length nows) = rate_limit_per_minute cfg"
    and empty: "store (rate_key req uid) = []"
    and window: "\<forall>a \<in> set (nows @ [t]). \<forall>b \<in> set (nows @ [t]). a - b < 60"
    and passed: "\<forall>a \<in> set nows. 60 \<le> later - a"
  shows "\<exists>hs. check_all cfg req uid nows store =
                 (replicate (length nows) (Inr ()), store(rate_key req uid := nows))
             \<and> check_rate_limit cfg req uid t (store(rate_key req uid := nows)) =
                 (Inl (HTTPException HTTP_429_TOO_MANY_REQUESTS (Text ''Rate limit exceeded'') hs),
                  store(rate_key req uid := nows))
             \<and> check_rate_limit cfg req uid later (store(rate_key req uid := nows)) =
                 (Inr (), store(rate_key req uid := [later]))"
proof -
  let ?k = "rate_key req uid"
  let ?full = "store(?k := nows)"
  have first: "check_all cfg req uid nows store = (replicate (length nows) (Inr ()), ?full)"
    using check_all_admits[of store req uid "[]" nows cfg] empty window len by simp
  have fresh: "prune t (?full ?k) = nows"
    using window by (intro prune_all_fresh[THEN trans]) auto
  obtain hs where second: "check_rate_limit cfg req uid t ?full =
      (Inl (HTTPException HTTP_429_TOO_MANY_REQUESTS (Text ''Rate limit exceeded'') hs), ?full)"
    using check_rate_limit_reject[of cfg t ?full req uid] fresh limit len by auto
  have stale: "prune later (?full ?k) = []"
    using passed by (intro prune_all_stale[THEN trans]) auto
  have third: "check_rate_limit cfg req uid later ?full = (Inr (), store(?k := [later]))"
    using check_rate_limit_admit[of later ?full req uid cfg] stale limit by simp
  from first second third show ?thesis by blast
qed

text \<open>
  Claim C1. The check is to reject every request whose pruned window holds at least the
  configured limit of entries. With the limit configured as 0 the first request of a key
  meets an empty window, which holds at least 0 entries; the handler then reads the first
  entry of the empty list and raises \<open>IndexError\<close> instead of the 429 rejection.
\<close>

theorem check_rate_limit_limit_zero_IndexError:
  "check_rate_limit (default_settings\<lparr>rate_limit_per_minute := 0\<rparr>) files_request ''u1'' 1000
     (\<lambda>_. []) = (Inl IndexError, (\<lambda>_. []))"
  by (simp add: check_rate_limit_def prune_def Let_def default_settings_def fun_eq_iff)

lemma py_int_gt: "x - 1 < real_of_int (py_int x)"
  unfolding py_int_def by (auto; linarith)

lemma full_window_rejected:
  "check_rate_limit default_settings files_request ''u1'' 1030 full_window =
     (Inl (HTTPException 429 (Text ''Rate limit exceeded'')
             [(''X-RateLimit-Limit'', HInt 10), (''X-RateLimit-Remaining'', HStr ''0''),
              (''X-RateLimit-Reset'', HInt 1060)]),
      full_window)"
  by (simp add: check_rate_limit_def rate_key_def prune_def default_settings_def py_int_def
        HTTP_429_TOO_MANY_REQUESTS_def Let_def full_window_def files_request_def)

text \<open>
  Claim C2, as amended. Every 429 rejection carries the header \<open>X-RateLimit-Reset\<close>, and
  its value is \<open>int(first + 60)\<close> for the first entry that remains in the pruned window:
  the epoch second, truncated, at which that entry leaves the window. It is an absolute
  time, not a number of seconds to wait; it is greater than \<open>now - 1\<close>, hence positive
  whenever the clock reads at least 1.
\<close>

theorem check_rate_limit_reset_header:
  assumes "check_rate_limit cfg req uid now store = (Inl (HTTPException st d hs), store')"
  shows "\<exists>ts0 rest. prune now (store (rate_key req uid)) = ts0 # rest
           \<and> map_of hs ''X-RateLimit-Reset'' = Some (HInt (py_int (ts0 + 60)))
           \<and> now - 1 < real_of_int (py_int (ts0 + 60))
           \<and> (1 \<le> now \<longrightarrow> 0 < py_int (ts0 + 60))"
proof (cases "prune now (store (rate_key req uid))")
  case Nil
  with assms show ?thesis
    by (simp add: check_rate_limit_def Let_def split: if_splits)
next
  case (Cons ts0 rest)
  have "ts0 \<in> set (prune now (store (rate_key req uid)))" using Cons by simp
  then have fresh: "now - ts0 < 60" by (simp add: prune_def)
  have "ts0 + 60 - 1 < real_of_int (py_int (ts0 + 60))" by (rule py_int_gt)
  with fresh have gt: "now - 1 < real_of_int (py_int (ts0 + 60))" by linarith
  then have pos: "1 \<le> now \<longrightarrow> 0 < py_int (ts0 + 60)" by auto
  from assms Cons gt pos show ?thesis
    by (auto simp: check_rate_limit_def Let_def split: if_splits)
qed

theorem check_rate_limit_reset_header_witness:
  "check_rate_limit default_settings files_request ''u1'' 1030 full_window =
     (Inl (HTTPException 429 (Text ''Rate limit exceeded'')
             [(''X-RateLimit-Limit'', HInt 10), (''X-RateLimit-Remaining'', HStr ''0''),
              (''X-RateLimit-Reset'', HInt 1060)]),
      full_window)
   \<and> (\<exists>ts0 rest. prune 1030 (full_window (rate_key files_request ''u1'')) = ts0 # rest
         \<and> HInt 1060 = HInt (py_int (ts0 + 60))
         \<and> 1030 - 1 < real_of_int (py_int (ts0 + 60))
         \<and> 0 < py_int (ts0 + 60))"
  using check_rate_limit_reset_header [OF full_window_rejected] full_window_rejected
  by auto

text \<open>
  The claim as stated fails: with the oldest entry at 1000 and the clock at 1030 the
  rejection carries 1060, while \<open>ceil(oldest + 60 - now)\<close> is 30.
\<close>

theorem retry_hint_is_absolute_counterexample:
  "check_rate_limit default_settings files_request ''u1'' 1030 full_window =
     (Inl (HTTPException 429 (Text ''Rate limit exceeded'')
             [(''X-RateLimit-Limit'', HInt 10), (''X-RateLimit-Remaining'', HStr ''0''),
              (''X-RateLimit-Reset'', HInt 1060)]),
      full_window)
   \<and> hd (prune 1030 (full_window (rate_key files_request ''u1''))) = 1000
   \<and> \<lceil>(1000 :: real) + 60 - 1030\<rceil> = 30
   \<and> HInt 1060 \<noteq> HInt \<lceil>(1000 :: real) + 60 - 1030\<rceil>"
  by (simp add: full_window_rejected)
     (simp add: full_window_def files_request_def rate_key_def prune_def)

section \<open>Password verification\<close>

text \<open>
  Claim C3, as amended. \<open>verify_password\<close> has no exception handler of its own: it
  returns a truth value exactly when \<open>bcrypt.checkpw\<close> returns that value, and whatever
  \<open>bcrypt.checkpw\<close> raises escapes unchanged.
\<close>

theorem verify_password_propagates:
  "(checkpw lib p h = Inl e \<longrightarrow> verify_password lib p h = Inl e)
   \<and> (verify_password lib p h = Inr b \<longleftrightarrow> checkpw lib p h = Inr b)"
  by (simp add: verify_password_def)

lemma toy_bcrypt_malformed:
  "checkpw toy_bcrypt ''Passw0rd!'' ''not-a-bcrypt-hash'' = Inl (ValueError ''Invalid salt'')"
  by (simp add: toy_bcrypt_def bcrypt_prefixed_def)

theorem verify_password_propagates_witness:
  "checkpw toy_bcrypt ''Passw0rd!'' ''not-a-bcrypt-hash'' = Inl (ValueError ''Invalid salt'')
   \<and> verify_password toy_bcrypt ''Passw0rd!'' ''not-a-bcrypt-hash''
       = Inl (ValueError ''Invalid salt'')"
  using verify_password_propagates
          [of toy_bcrypt "''Passw0rd!''" "''not-a-bcrypt-hash''" "ValueError ''Invalid salt''"]
    toy_bcrypt_malformed
  by simp

text \<open>
  The claim as stated fails: on a hash string that is not bcrypt-shaped the package
  raises \<open>ValueError\<close>, and so does \<open>verify_password\<close>; it does not return false.
\<close>

theorem verify_password_raises_counterexample:
  "\<not> bcrypt_prefixed ''not-a-bcrypt-hash''
   \<and> verify_password toy_bcrypt ''Passw0rd!'' ''not-a-bcrypt-hash''
       = Inl (ValueError ''Invalid salt'')
   \<and> verify_password toy_bcrypt ''Passw0rd!'' ''not-a-bcrypt-hash'' \<noteq> Inr False"
  by (simp add: verify_password_def toy_bcrypt_def bcrypt_prefixed_def)

section \<open>Access tokens\<close>

lemma str_lower_Bearer: "str_lower ''Bearer'' = ''bearer''"
  by code_simp

text \<open>
  Claim C4. An access token issued for \<open>(user_id, tenant_id, username, role)\<close> and
  presented under the Bearer scheme at any time strictly before the expiry it carries
  validates to a \<open>TokenData\<close> with the same four values (and that expiry).
\<close>

theorem access_token_round_trip:
  assumes "str_lower scheme = ''bearer''"
    and "now' < real_of_int \<lfloor>now + 60 * real_of_int (access_token_expire_minutes cfg)\<rfloor>"
  shows "get_current_user cfg
           (Some [Plain scheme, create_access_token cfg now user_id tenant_id username role]) now'
         = Inr \<lparr> td_user_id = user_id, td_tenant_id = tenant_id, td_username = username,
                 td_role = role,
                 td_exp = real_of_int
                   \<lfloor>now + 60 * real_of_int (access_token_expire_minutes cfg)\<rfloor> \<rparr>"
  using assms
  by (simp add: get_current_user_def scheme_lower_def create_access_token_def jwt_encode_def
        decode_token_def jwt_decode_def token_data_def getitem_def Let_def)

theorem access_token_round_trip_witness:
  "str_lower ''Bearer'' = ''bearer''
   \<and> (2799 :: real)
       < real_of_int
           \<lfloor>(1000 :: real) + 60 * real_of_int (access_token_expire_minutes default_settings)\<rfloor>
   \<and> get_current_user default_settings
        (Some [Plain ''Bearer'',
               create_access_token default_settings 1000 ''u1'' ''t1'' ''alice'' ''admin''])
        2799
       = Inr \<lparr> td_user_id = ''u1'', td_tenant_id = ''t1'', td_username = ''alice'',
               td_role = ''admin'', td_exp = 2800 \<rparr>"
proof -
  have a: "str_lower ''Bearer'' = ''bearer''" by (rule str_lower_Bearer)
  have b: "(2799 :: real)
      < real_of_int
          \<lfloor>(1000 :: real) + 60 * real_of_int (access_token_expire_minutes default_settings)\<rfloor>"
    by (simp add: default_settings_def)
  have c: "real_of_int
      \<lfloor>(1000 :: real) + 60 * real_of_int (access_token_expire_minutes default_settings)\<rfloor>
      = 2800"
    by (simp add: default_settings_def)
  from access_token_round_trip [OF a b, of "''u1''" "''t1''" "''alice''" "''admin''"] a b c
  show ?thesis by simp
qed

section \<open>Refresh validation\<close>

lemma alice_refresh_eq:
  "alice_refresh =
     Jws [(''user_id'', JStr ''u1''), (''tenant_id'', JStr ''t1''), (''exp'', JInt 605800),
          (''type'', JStr ''refresh'')]
       (jwt_secret default_settings) (jwt_algorithm default_settings)"
  by (simp add: alice_refresh_def create_refresh_token_def jwt_encode_def default_settings_def)

lemma alice_access_eq:
  "alice_access =
     Jws [(''user_id'', JStr ''u1''), (''tenant_id'', JStr ''t1''),
          (''username'', JStr ''alice''), (''role'', JStr ''admin''), (''exp'', JInt 2800),
          (''type'', JStr ''access'')]
       (jwt_secret default_settings) (jwt_algorithm default_settings)"
  by (simp add: alice_access_def create_access_token_def jwt_encode_def default_settings_def)

lemma decode_alice_refresh_2000:
  "decode_token default_settings alice_refresh 2000 =
     Inr [(''user_id'', JStr ''u1''), (''tenant_id'', JStr ''t1''), (''exp'', JInt 605800),
          (''type'', JStr ''refresh'')]"
  by (simp add: alice_refresh_eq decode_token_def jwt_decode_def)

lemma decode_alice_refresh_3000:
  "decode_token default_settings alice_refresh 3000 =
     Inr [(''user_id'', JStr ''u1''), (''tenant_id'', JStr ''t1''), (''exp'', JInt 605800),
          (''type'', JStr ''refresh'')]"
  by (simp add: alice_refresh_eq decode_token_def jwt_decode_def)

lemma decode_alice_access_2000:
  "decode_token default_settings alice_access 2000 =
     Inr [(''user_id'', JStr ''u1''), (''tenant_id'', JStr ''t1''),
          (''username'', JStr ''alice''), (''role'', JStr ''admin''), (''exp'', JInt 2800),
          (''type'', JStr ''access'')]"
  by (simp add: alice_access_eq decode_token_def jwt_decode_def)

lemma decode_garbage:
  "decode_token default_settings (Plain ''garbage'') 2000 =
     Inl (HTTPException 401 (Text ''Invalid token'') www_authenticate)"
  by (simp add: decode_token_def jwt_decode_def HTTP_401_UNAUTHORIZED_def)

lemma decode_token_expired:
  assumes "map_of claims ''exp'' = Some (JInt ex)" and "real_of_int ex \<le> now"
  shows "decode_token cfg (Jws claims (jwt_secret cfg) (jwt_algorithm cfg)) now = Inl Expired"
  using assms by (simp add: decode_token_def jwt_decode_def Expired_def)

lemma decode_token_never_Revoked: "decode_token cfg tok now = Inl e \<Longrightarrow> e \<noteq> Revoked"
  by (auto simp: decode_token_def Revoked_def www_authenticate_def
      split: sum.splits jwt_error.splits)

lemma decode_token_claims: "decode_token cfg tok now = Inr c \<Longrightarrow> claims_of tok = c"
  by (auto simp: decode_token_def jwt_decode_def claims_of_def
      split: token.splits if_splits option.splits jval.splits sum.splits jwt_error.splits)

lemma refresh_tokens_success:
  assumes "refresh_tokens cfg presented now s = (Inr r, s')"
  shows "\<exists>claims uid user. decode_token cfg presented now = Inr claims
           \<and> map_of claims ''type'' = Some (JStr ''refresh'')
           \<and> presented \<notin> blacklisted_tokens s
           \<and> map_of claims ''user_id'' = Some (JStr uid)
           \<and> map_of (users_db s) uid = Some user \<and> u_is_active user
           \<and> r = TokenPairResponse (token_pair cfg now user)
           \<and> s' = s\<lparr>blacklisted_tokens := insert presented (blacklisted_tokens s)\<rparr>"
  using assms
  by (auto simp: refresh_tokens_def getitem_def
      split: sum.splits if_splits option.splits jval.splits)

lemma refresh_tokens_valid:
  assumes "decode_token cfg presented now = Inr claims"
    and "map_of claims ''type'' = Some (JStr ''refresh'')"
    and "presented \<notin> blacklisted_tokens s"
    and "map_of claims ''user_id'' = Some (JStr uid)"
    and "map_of (users_db s) uid = Some user" and "u_is_active user"
  shows "refresh_tokens cfg presented now s =
           (Inr (TokenPairResponse (token_pair cfg now user)),
            s\<lparr>blacklisted_tokens := insert presented (blacklisted_tokens s)\<rparr>)"
  using assms by (simp add: refresh_tokens_def getitem_def)

lemma refresh_tokens_revoked:
  assumes "decode_token cfg tok now = Inr c" and "map_of c ''type'' = Some (JStr ''refresh'')"
    and "tok \<in> blacklisted_tokens s"
  shows "refresh_tokens cfg tok now s = (Inl Revoked, s)"
  using assms by (simp add: refresh_tokens_def Revoked_def)

lemma refresh_tokens_blacklisted_fails:
  assumes "tok \<in> blacklisted_tokens s"
  shows "\<exists>e. refresh_tokens cfg tok now s = (Inl e, s)"
  using assms by (auto simp: refresh_tokens_def split: sum.splits)

text \<open>
  Claim C5. In \<open>refresh_tokens\<close> the decoding (signature, then expiry) comes first: any
  decoding failure is the outcome whatever the revocation set holds, so a well-signed
  expired token fails with \<open>Expired\<close> even when it is in the set; a token that decodes
  but is not of kind refresh fails with \<open>WrongKind\<close>; a decoded refresh token that is in
  the set fails with \<open>Revoked\<close>; and \<open>Revoked\<close> is the outcome only for a token that
  decodes, is of kind refresh and is in the set.
\<close>

theorem refresh_check_order:
  "(decode_token cfg tok now = Inl e \<longrightarrow> refresh_tokens cfg tok now s = (Inl e, s))
   \<and> (tok = Jws claims (jwt_secret cfg) (jwt_algorithm cfg)
        \<and> map_of claims ''exp'' = Some (JInt ex) \<and> real_of_int ex \<le> now
      \<longrightarrow> refresh_tokens cfg tok now s = (Inl Expired, s))
   \<and> (decode_token cfg tok now = Inr claims' \<and> map_of claims' ''type'' \<noteq> Some (JStr ''refresh'')
      \<longrightarrow> refresh_tokens cfg tok now s = (Inl WrongKind, s))
   \<and> (decode_token cfg tok now = Inr claims' \<and> map_of claims' ''type'' = Some (JStr ''refresh'')
        \<and> tok \<in> blacklisted_tokens s
      \<longrightarrow> refresh_tokens cfg tok now s = (Inl Revoked, s))
   \<and> (fst (refresh_tokens cfg tok now s) = Inl Revoked
      \<longrightarrow> (\<exists>c. decode_token cfg tok now = Inr c \<and> map_of c ''type'' = Some (JStr ''refresh'')
                \<and> tok \<in> blacklisted_tokens s))"
proof (intro conjI impI)
  assume "decode_token cfg tok now = Inl e"
  then show "refresh_tokens cfg tok now s = (Inl e, s)"
    by (simp add: refresh_tokens_def)
next
  assume "tok = Jws claims (jwt_secret cfg) (jwt_algorithm cfg)
        \<and> map_of claims ''exp'' = Some (JInt ex) \<and> real_of_int ex \<le> now"
  then have "decode_token cfg tok now = Inl Expired"
    using decode_token_expired by simp
  then show "refresh_tokens cfg tok now s = (Inl Expired, s)"
    by (simp add: refresh_tokens_def)
next
  assume "decode_token cfg tok now = Inr claims'
        \<and> map_of claims' ''type'' \<noteq> Some (JStr ''refresh'')"
  then show "refresh_tokens cfg tok now s = (Inl WrongKind, s)"
    by (simp add: refresh_tokens_def WrongKind_def)
next
  assume "decode_token cfg tok now = Inr claims'
        \<and> map_of claims' ''type'' = Some (JStr ''refresh'') \<and> tok \<in> blacklisted_tokens s"
  then show "refresh_tokens cfg tok now s = (Inl Revoked, s)"
    by (simp add: refresh_tokens_revoked)
next
  assume r: "fst (refresh_tokens cfg tok now s) = Inl Revoked"
  show "\<exists>c. decode_token cfg tok now = Inr c \<and> map_of c ''type'' = Some (JStr ''refresh'')
                \<and> tok \<in> blacklisted_tokens s"
  proof (cases "decode_token cfg tok now")
    case (Inl e)
    with r decode_token_never_Revoked [OF Inl] show ?thesis
      by (simp add: refresh_tokens_def)
  next
    case (Inr c)
    with r show ?thesis
      by (auto simp: refresh_tokens_def Revoked_def getitem_def HTTP_401_UNAUTHORIZED_def
          split: if_splits option.splits sum.splits jval.splits)
  qed
qed

theorem refresh_check_order_witness:
  "refresh_tokens default_settings (Plain ''garbage'') 2000 revoked_state
     = (Inl (HTTPException 401 (Text ''Invalid token'') www_authenticate), revoked_state)
   \<and> alice_refresh \<in> blacklisted_tokens revoked_state
   \<and> refresh_tokens default_settings alice_refresh 700000 revoked_state
       = (Inl Expired, revoked_state)
   \<and> refresh_tokens default_settings alice_access 2000 revoked_state
       = (Inl WrongKind, revoked_state)
   \<and> refresh_tokens default_settings alice_refresh 2000 revoked_state
       = (Inl Revoked, revoked_state)
   \<and> (\<exists>c. decode_token default_settings alice_refresh 2000 = Inr c
          \<and> map_of c ''type'' = Some (JStr ''refresh'')
          \<and> alice_refresh \<in> blacklisted_tokens revoked_state)"
proof -
  have bl: "alice_refresh \<in> blacklisted_tokens revoked_state"
    by (simp add: revoked_state_def)
  have 1: "refresh_tokens default_settings (Plain ''garbage'') 2000 revoked_state
     = (Inl (HTTPException 401 (Text ''Invalid token'') www_authenticate), revoked_state)"
    using refresh_check_order [of default_settings "Plain ''garbage''" 2000 _ revoked_state]
      decode_garbage by blast
  have 2: "refresh_tokens default_settings alice_refresh 700000 revoked_state
      = (Inl Expired, revoked_state)"
    using refresh_check_order [of default_settings alice_refresh 700000 _ revoked_state
        "[(''user_id'', JStr ''u1''), (''tenant_id'', JStr ''t1''), (''exp'', JInt 605800),
          (''type'', JStr ''refresh'')]" 605800]
      alice_refresh_eq by simp
  have 3: "refresh_tokens default_settings alice_access 2000 revoked_state
      = (Inl WrongKind, revoked_state)"
    using refresh_check_order [of default_settings alice_access 2000 _ revoked_state _ _
        "[(''user_id'', JStr ''u1''), (''tenant_id'', JStr ''t1''),
          (''username'', JStr ''alice''), (''role'', JStr ''admin''), (''exp'', JInt 2800),
          (''type'', JStr ''access'')]"]
      decode_alice_access_2000 by simp
  have 4: "refresh_tokens default_settings alice_refresh 2000 revoked_state
      = (Inl Revoked, revoked_state)"
    using refresh_check_order [of default_settings alice_refresh 2000 _ revoked_state _ _
        "[(''user_id'', JStr ''u1''), (''tenant_id'', JStr ''t1''), (''exp'', JInt 605800),
          (''type'', JStr ''refresh'')]"]
      decode_alice_refresh_2000 bl by simp
  have 5: "\<exists>c. decode_token default_settings alice_refresh 2000 = Inr c
          \<and> map_of c ''type'' = Some (JStr ''refresh'')
          \<and> alice_refresh \<in> blacklisted_tokens revoked_state"
    using refresh_check_order [of default_settings alice_refresh 2000 _ revoked_state] 4
    by simp
  from bl 1 2 3 4 5 show ?thesis by blast
qed

text \<open>
  Claim C7. A refresh token carries exactly the claims \<open>user_id\<close>, \<open>tenant_id\<close>, \<open>exp\<close>
  and \<open>type\<close>, the last being \<open>refresh\<close>, and neither a username nor a role. The access
  token that a successful refresh returns is built from the user record stored under the
  presented token's \<open>user_id\<close>: its username and role claims are those of that record.
\<close>

theorem refresh_claims_and_role_source:
  "map fst (claims_of (create_refresh_token cfg now user_id tenant_id))
     = [''user_id'', ''tenant_id'', ''exp'', ''type'']
   \<and> map_of (claims_of (create_refresh_token cfg now user_id tenant_id)) ''type''
       = Some (JStr ''refresh'')
   \<and> map_of (claims_of (create_refresh_token cfg now user_id tenant_id)) ''username'' = None
   \<and> map_of (claims_of (create_refresh_token cfg now user_id tenant_id)) ''role'' = None
   \<and> (refresh_tokens cfg presented now' s = (Inr (TokenPairResponse pair), s')
      \<longrightarrow> (\<exists>uid user. map_of (claims_of presented) ''user_id'' = Some (JStr uid)
             \<and> map_of (users_db s) uid = Some user
             \<and> access_token pair =
                 create_access_token cfg now' (u_id user) (u_tenant_id user)
                   (u_username user) (u_role user)
             \<and> map_of (claims_of (access_token pair)) ''username''
                 = Some (JStr (u_username user))
             \<and> map_of (claims_of (access_token pair)) ''role'' = Some (JStr (u_role user))))"
proof (intro conjI impI)
  assume ok: "refresh_tokens cfg presented now' s = (Inr (TokenPairResponse pair), s')"
  from refresh_tokens_success [OF ok] obtain claims uid user where
    d: "decode_token cfg presented now' = Inr claims"
    and u: "map_of claims ''user_id'' = Some (JStr uid)" "map_of (users_db s) uid = Some user"
    and p: "pair = token_pair cfg now' user"
    by auto
  from d have "claims_of presented = claims" by (rule decode_token_claims)
  with u p show "\<exists>uid user. map_of (claims_of presented) ''user_id'' = Some (JStr uid)
             \<and> map_of (users_db s) uid = Some user
             \<and> access_token pair =
                 create_access_token cfg now' (u_id user) (u_tenant_id user)
                   (u_username user) (u_role user)
             \<and> map_of (claims_of (access_token pair)) ''username''
                 = Some (JStr (u_username user))
             \<and> map_of (claims_of (access_token pair)) ''role'' = Some (JStr (u_role user))"
    by (auto simp: token_pair_def create_access_token_def jwt_encode_def claims_of_def)
qed (simp_all add: create_refresh_token_def jwt_encode_def claims_of_def)

lemma refresh_stale_ok:
  "refresh_tokens default_settings stale_refresh 2000 two_tenant_state =
     (Inr (TokenPairResponse (token_pair default_settings 2000 bob)),
      two_tenant_state\<lparr>blacklisted_tokens :=
        insert stale_refresh (blacklisted_tokens two_tenant_state)\<rparr>)"
proof -
  have d: "decode_token default_settings stale_refresh 2000 = Inr (claims_of stale_refresh)"
    by (simp add: stale_refresh_def claims_of_def decode_token_def jwt_decode_def)
  have c: "map_of (claims_of stale_refresh) ''type'' = Some (JStr ''refresh'')"
    "map_of (claims_of stale_refresh) ''user_id'' = Some (JStr ''u2'')"
    by (simp_all add: stale_refresh_def claims_of_def)
  have u: "stale_refresh \<notin> blacklisted_tokens two_tenant_state"
    "map_of (users_db two_tenant_state) ''u2'' = Some bob" "u_is_active bob"
    by (simp_all add: two_tenant_state_def initial_state_def bob_def)
  from d c(1) u(1) c(2) u(2,3) show ?thesis by (rule refresh_tokens_valid)
qed

theorem refresh_claims_and_role_source_witness:
  "map fst (claims_of (create_refresh_token default_settings 1000 ''u1'' ''t1''))
     = [''user_id'', ''tenant_id'', ''exp'', ''type'']
   \<and> map_of (claims_of stale_refresh) ''role'' = Some (JStr ''admin'')
   \<and> refresh_tokens default_settings stale_refresh 2000 two_tenant_state =
       (Inr (TokenPairResponse (token_pair default_settings 2000 bob)),
        two_tenant_state\<lparr>blacklisted_tokens :=
          insert stale_refresh (blacklisted_tokens two_tenant_state)\<rparr>)
   \<and> map_of (users_db two_tenant_state) ''u2'' = Some bob
   \<and> map_of (claims_of (access_token (token_pair default_settings 2000 bob))) ''username''
       = Some (JStr ''bob'')
   \<and> map_of (claims_of (access_token (token_pair default_settings 2000 bob))) ''role''
       = Some (JStr ''user'')"
proof -
  note t = refresh_claims_and_role_source
             [of default_settings 1000 "''u1''" "''t1''" stale_refresh 2000 two_tenant_state
                 "token_pair default_settings 2000 bob"
                 "two_tenant_state\<lparr>blacklisted_tokens :=
                    insert stale_refresh (blacklisted_tokens two_tenant_state)\<rparr>"]
  have stale: "map_of (claims_of stale_refresh) ''role'' = Some (JStr ''admin'')"
    "map_of (claims_of stale_refresh) ''user_id'' = Some (JStr ''u2'')"
    by (simp_all add: stale_refresh_def claims_of_def)
  have rec: "map_of (users_db two_tenant_state) ''u2'' = Some bob"
    "u_username bob = ''bob''" "u_role bob = ''user''"
    by (simp_all add: two_tenant_state_def initial_state_def bob_def)
  from t refresh_stale_ok stale rec show ?thesis by auto
qed

section \<open>Tenant isolation\<close>

lemma rate_limited_frame:
  assumes "rate_limited cfg req uid now s = (r, s1)"
  shows "blacklisted_tokens s1 = blacklisted_tokens s \<and> users_db s1 = users_db s
         \<and> files_db s1 = files_db s \<and> file_storage s1 = file_storage s
         \<and> tenants_db s1 = tenants_db s"
  using assms by (auto simp: rate_limited_def split: prod.splits)

lemma rate_limited_same_store:
  assumes "rate_limit_store s = rate_limit_store t"
  shows "fst (rate_limited cfg req uid now s) = fst (rate_limited cfg req uid now t)
       \<and> rate_limit_store (snd (rate_limited cfg req uid now s))
           = rate_limit_store (snd (rate_limited cfg req uid now t))"
  using assms by (simp add: rate_limited_def split: prod.splits)

text \<open>
  For a resource that is absent or belongs to another tenant, both fetch handlers reduce
  to the rate-limit check followed by the same 404.
\<close>

lemma get_user_hidden:
  assumes "get_current_user cfg authorization now = Inr caller"
    and "map_of (users_db s) user_id = None
         \<or> (\<exists>user. map_of (users_db s) user_id = Some user
                \<and> u_tenant_id user \<noteq> td_tenant_id caller)"
  shows "get_user cfg req user_id authorization now s =
           (case rate_limited cfg req (td_user_id caller) now s of
              (Inl e, s1) \<Rightarrow> (Inl e, s1)
            | (Inr _, s1) \<Rightarrow> (Inl (not_found ''User'' user_id), s1))"
  using assms
  by (auto simp: get_user_def split: prod.splits sum.splits dest: rate_limited_frame)

lemma download_file_hidden:
  assumes "get_current_user cfg authorization now = Inr caller"
    and "map_of (files_db s) file_id = None
         \<or> (\<exists>file_meta. map_of (files_db s) file_id = Some file_meta
                \<and> f_tenant_id file_meta \<noteq> td_tenant_id caller)"
  shows "download_file cfg req file_id authorization now s =
           (case rate_limited cfg req (td_user_id caller) now s of
              (Inl e, s1) \<Rightarrow> (Inl e, s1)
            | (Inr _, s1) \<Rightarrow> (Inl (not_found ''File'' file_id), s1))"
  using assms
  by (auto simp: download_file_def split: prod.splits sum.splits dest: rate_limited_frame)

lemma hidden_same:
  assumes "rate_limit_store s = rate_limit_store t"
  shows "fst (case rate_limited cfg req uid now s of
              (Inl e, s1) \<Rightarrow> (Inl e, s1)
            | (Inr _, s1) \<Rightarrow> (Inl err :: exn + response, s1))
       = fst (case rate_limited cfg req uid now t of
              (Inl e, s1) \<Rightarrow> (Inl e, s1)
            | (Inr _, s1) \<Rightarrow> (Inl err, s1))"
  using rate_limited_same_store [OF assms, of cfg req uid now]
  by (auto split: prod.splits sum.splits)

lemma hidden_same_store:
  assumes "rate_limit_store s = rate_limit_store t"
  shows "rate_limit_store
           (snd (case rate_limited cfg req uid now s of
                   (Inl e, s1) \<Rightarrow> (Inl e, s1)
                 | (Inr _, s1) \<Rightarrow> (Inl err :: exn + response, s1)))
       = rate_limit_store
           (snd (case rate_limited cfg req uid now t of
                   (Inl e, s1) \<Rightarrow> (Inl e, s1)
                 | (Inr _, s1) \<Rightarrow> (Inl err :: exn + response, s1)))"
  using rate_limited_same_store [OF assms, of cfg req uid now]
  by (auto split: prod.splits sum.splits)

lemma hidden_admitted:
  assumes "fst (rate_limited cfg req uid now s) = Inr ()"
  shows "fst (case rate_limited cfg req uid now s of
              (Inl e, s1) \<Rightarrow> (Inl e, s1)
            | (Inr _, s1) \<Rightarrow> (Inl err :: exn + response, s1)) = Inl err"
  using assms by (auto split: prod.splits sum.splits)

text \<open>
  Claim C8. Take a caller with a valid access token and two states with the same
  rate-limit history: in one the requested id names a resource of another tenant, in the
  other no resource has that id. \<open>get_user\<close> answers both with the same result and leaves
  the same rate-limit history behind, and when the rate limit admits the request that
  result is the 404 with the detail \<open>User with id '...' not found\<close>. The same holds of
  \<open>download_file\<close> with \<open>File with id '...' not found\<close>.
\<close>

theorem cross_tenant_not_found_indistinguishable:
  assumes "get_current_user cfg authorization now = Inr caller"
    and "rate_limit_store s_foreign = rate_limit_store s_absent"
  shows "(map_of (users_db s_foreign) user_id = Some user
            \<and> u_tenant_id user \<noteq> td_tenant_id caller
            \<and> map_of (users_db s_absent) user_id = None
          \<longrightarrow> fst (get_user cfg req user_id authorization now s_foreign)
                = fst (get_user cfg req user_id authorization now s_absent)
              \<and> rate_limit_store (snd (get_user cfg req user_id authorization now s_foreign))
                = rate_limit_store (snd (get_user cfg req user_id authorization now s_absent))
              \<and> (fst (rate_limited cfg req (td_user_id caller) now s_absent) = Inr ()
                 \<longrightarrow> fst (get_user cfg req user_id authorization now s_foreign)
                       = Inl (HTTPException 404
                               (Text (''User with id '' @ quoted user_id @ '' not found'')) [])))
       \<and> (map_of (files_db s_foreign) file_id = Some file_meta
            \<and> f_tenant_id file_meta \<noteq> td_tenant_id caller
            \<and> map_of (files_db s_absent) file_id = None
          \<longrightarrow> fst (download_file cfg req file_id authorization now s_foreign)
                = fst (download_file cfg req file_id authorization now s_absent)
              \<and> rate_limit_store (snd (download_file cfg req file_id authorization now s_foreign))
                = rate_limit_store (snd (download_file cfg req file_id authorization now s_absent))
              \<and> (fst (rate_limited cfg req (td_user_id caller) now s_absent) = Inr ()
                 \<longrightarrow> fst (download_file cfg req file_id authorization now s_foreign)
                       = Inl (HTTPException 404
                               (Text (''File with id '' @ quoted file_id @ '' not found'')) [])))"
proof (intro conjI impI)
  assume u: "map_of (users_db s_foreign) user_id = Some user
            \<and> u_tenant_id user \<noteq> td_tenant_id caller
            \<and> map_of (users_db s_absent) user_id = None"
  have f: "get_user cfg req user_id authorization now s_foreign =
           (case rate_limited cfg req (td_user_id caller) now s_foreign of
              (Inl e, s1) \<Rightarrow> (Inl e, s1)
            | (Inr _, s1) \<Rightarrow> (Inl (not_found ''User'' user_id), s1))"
    using u by (intro get_user_hidden [OF assms(1)]) auto
  have a: "get_user cfg req user_id authorization now s_absent =
           (case rate_limited cfg req (td_user_id caller) now s_absent of
              (Inl e, s1) \<Rightarrow> (Inl e, s1)
            | (Inr _, s1) \<Rightarrow> (Inl (not_found ''User'' user_id), s1))"
    using u by (intro get_user_hidden [OF assms(1)]) auto
  show same: "fst (get_user cfg req user_id authorization now s_foreign)
          = fst (get_user cfg req user_id authorization now s_absent)"
    unfolding f a by (rule hidden_same [OF assms(2)])
  show "rate_limit_store (snd (get_user cfg req user_id authorization now s_foreign))
      = rate_limit_store (snd (get_user cfg req user_id authorization now s_absent))"
    unfolding f a by (rule hidden_same_store [OF assms(2)])
  assume "fst (rate_limited cfg req (td_user_id caller) now s_absent) = Inr ()"
  then have "fst (get_user cfg req user_id authorization now s_absent)
               = Inl (not_found ''User'' user_id)"
    unfolding a by (rule hidden_admitted)
  with same show "fst (get_user cfg req user_id authorization now s_foreign)
      = Inl (HTTPException 404 (Text (''User with id '' @ quoted user_id @ '' not found'')) [])"
    by (simp add: not_found_def HTTP_404_NOT_FOUND_def)
next
  assume u: "map_of (files_db s_foreign) file_id = Some file_meta
            \<and> f_tenant_id file_meta \<noteq> td_tenant_id caller
            \<and> map_of (files_db s_absent) file_id = None"
  have f: "download_file cfg req file_id authorization now s_foreign =
           (case rate_limited cfg req (td_user_id caller) now s_foreign of
              (Inl e, s1) \<Rightarrow> (Inl e, s1)
            | (Inr _, s1) \<Rightarrow> (Inl (not_found ''File'' file_id), s1))"
    using u by (intro download_file_hidden [OF assms(1)]) auto
  have a: "download_file cfg req file_id authorization now s_absent =
           (case rate_limited cfg req (td_user_id caller) now s_absent of
              (Inl e, s1) \<Rightarrow> (Inl e, s1)
            | (Inr _, s1) \<Rightarrow> (Inl (not_found ''File'' file_id), s1))"
    using u by (intro download_file_hidden [OF assms(1)]) auto
  show same: "fst (download_file cfg req file_id authorization now s_foreign)
          = fst (download_file cfg req file_id authorization now s_absent)"
    unfolding f a by (rule hidden_same [OF assms(2)])
  show "rate_limit_store (snd (download_file cfg req file_id authorization now s_foreign))
      = rate_limit_store (snd (download_file cfg req file_id authorization now s_absent))"
    unfolding f a by (rule hidden_same_store [OF assms(2)])
  assume "fst (rate_limited cfg req (td_user_id caller) now s_absent) = Inr ()"
  then have "fst (download_file cfg req file_id authorization now s_absent)
               = Inl (not_found ''File'' file_id)"
    unfolding a by (rule hidden_admitted)
  with same show "fst (download_file cfg req file_id authorization now s_foreign)
      = Inl (HTTPException 404 (Text (''File with id '' @ quoted file_id @ '' not found'')) [])"
    by (simp add: not_found_def HTTP_404_NOT_FOUND_def)
qed

lemma alice_validates:
  "get_current_user default_settings (bearer alice_access) 2000 = Inr alice_data"
  by (simp add: get_current_user_def bearer_def scheme_lower_def str_lower_Bearer
      decode_alice_access_2000 token_data_def getitem_def alice_data_def)

lemma admitted_fresh:
  "fst (rate_limited default_settings req (td_user_id alice_data) 2000 acme_state) = Inr ()"
  by (simp add: rate_limited_def check_rate_limit_def acme_state_def initial_state_def
      prune_def default_settings_def Let_def)

theorem cross_tenant_not_found_indistinguishable_witness:
  "get_current_user default_settings (bearer alice_access) 2000 = Inr alice_data
   \<and> map_of (users_db two_tenant_state) ''u2'' = Some bob
   \<and> u_tenant_id bob \<noteq> td_tenant_id alice_data
   \<and> map_of (users_db acme_state) ''u2'' = None
   \<and> map_of (files_db two_tenant_state) ''f9'' = Some globex_file
   \<and> f_tenant_id globex_file \<noteq> td_tenant_id alice_data
   \<and> map_of (files_db acme_state) ''f9'' = None
   \<and> fst (get_user default_settings user_request ''u2'' (bearer alice_access) 2000
            two_tenant_state)
       = fst (get_user default_settings user_request ''u2'' (bearer alice_access) 2000
                acme_state)
   \<and> fst (get_user default_settings user_request ''u2'' (bearer alice_access) 2000
            two_tenant_state)
       = Inl (HTTPException 404 (Text (''User with id '' @ quoted ''u2'' @ '' not found'')) [])
   \<and> fst (download_file default_settings file_request ''f9'' (bearer alice_access) 2000
            two_tenant_state)
       = fst (download_file default_settings file_request ''f9'' (bearer alice_access) 2000
                acme_state)
   \<and> fst (download_file default_settings file_request ''f9'' (bearer alice_access) 2000
            two_tenant_state)
       = Inl (HTTPException 404 (Text (''File with id '' @ quoted ''f9'' @ '' not found'')) [])"
proof -
  have rs: "rate_limit_store two_tenant_state = rate_limit_store acme_state"
    by (simp add: two_tenant_state_def acme_state_def)
  have u: "map_of (users_db two_tenant_state) ''u2'' = Some bob"
    "u_tenant_id bob \<noteq> td_tenant_id alice_data" "map_of (users_db acme_state) ''u2'' = None"
    by (simp_all add: two_tenant_state_def acme_state_def initial_state_def bob_def
        alice_data_def alice_def)
  have f: "map_of (files_db two_tenant_state) ''f9'' = Some globex_file"
    "f_tenant_id globex_file \<noteq> td_tenant_id alice_data"
    "map_of (files_db acme_state) ''f9'' = None"
    by (simp_all add: two_tenant_state_def acme_state_def initial_state_def globex_file_def
        alice_data_def)
  note t = cross_tenant_not_found_indistinguishable [OF alice_validates rs,
      of "''u2''" bob _ "''f9''" globex_file]
  from t [of user_request] u admitted_fresh [of user_request]
  have g: "fst (get_user default_settings user_request ''u2'' (bearer alice_access) 2000
                  two_tenant_state)
       = fst (get_user default_settings user_request ''u2'' (bearer alice_access) 2000
                acme_state)"
    "fst (get_user default_settings user_request ''u2'' (bearer alice_access) 2000
            two_tenant_state)
       = Inl (HTTPException 404 (Text (''User with id '' @ quoted ''u2'' @ '' not found'')) [])"
    by blast+
  from t [of file_request] f admitted_fresh [of file_request]
  have d: "fst (download_file default_settings file_request ''f9'' (bearer alice_access) 2000
                  two_tenant_state)
       = fst (download_file default_settings file_request ''f9'' (bearer alice_access) 2000
                acme_state)"
    "fst (download_file default_settings file_request ''f9'' (bearer alice_access) 2000
            two_tenant_state)
       = Inl (HTTPException 404 (Text (''File with id '' @ quoted ''f9'' @ '' not found'')) [])"
    by blast+
  from alice_validates u f g d show ?thesis by blast
qed

section \<open>The revocation set\<close>

text \<open>What each handler does to \<open>blacklisted_tokens\<close>.\<close>

lemma health_check_blacklist:
  "blacklisted_tokens (snd (health_check cfg now s)) = blacklisted_tokens s"
  by (simp add: health_check_def)

lemma register_tenant_blacklist:
  "blacklisted_tokens (snd (register_tenant lib td tid uid salt now s)) = blacklisted_tokens s"
  by (simp add: register_tenant_def Let_def split: sum.splits)

lemma login_blacklist:
  "blacklisted_tokens (snd (login cfg lib cr now s)) = blacklisted_tokens s"
  by (simp add: login_def split: sum.splits option.splits)

lemma refresh_tokens_blacklist:
  "blacklisted_tokens s \<subseteq> blacklisted_tokens (snd (refresh_tokens cfg tok now s))"
  by (auto simp: refresh_tokens_def split: sum.splits option.splits)

lemma logout_state: "snd (logout cfg auth now s) = s"
  by (simp add: logout_def split: sum.splits)

lemma list_users_blacklist:
  "blacklisted_tokens (snd (list_users cfg req p ps ao auth now s)) = blacklisted_tokens s"
  by (auto simp: list_users_def Let_def split: sum.splits prod.splits dest: rate_limited_frame)

lemma create_user_blacklist:
  "blacklisted_tokens (snd (create_user cfg lib req ud uid salt auth now s))
     = blacklisted_tokens s"
  by (auto simp: create_user_def Let_def split: sum.splits prod.splits option.splits
      dest: rate_limited_frame)

lemma get_user_blacklist:
  "blacklisted_tokens (snd (get_user cfg req uid auth now s)) = blacklisted_tokens s"
  by (auto simp: get_user_def split: sum.splits prod.splits option.splits
      dest: rate_limited_frame)

lemma update_user_blacklist:
  "blacklisted_tokens (snd (update_user cfg req uid ud auth now s)) = blacklisted_tokens s"
  by (auto simp: update_user_def Let_def split: sum.splits prod.splits option.splits
      dest: rate_limited_frame)

lemma delete_user_blacklist:
  "blacklisted_tokens (snd (delete_user cfg req uid auth now s)) = blacklisted_tokens s"
  by (auto simp: delete_user_def split: sum.splits prod.splits option.splits
      dest: rate_limited_frame)

lemma create_users_bulk_blacklist:
  "blacklisted_tokens (snd (create_users_bulk cfg lib req uds auth now s))
     = blacklisted_tokens s"
  by (auto simp: create_users_bulk_def Let_def split: sum.splits prod.splits option.splits
      dest: rate_limited_frame)

lemma upload_file_blacklist:
  "blacklisted_tokens (snd (upload_file cfg req fname ct c fid auth now s))
     = blacklisted_tokens s"
  by (auto simp: upload_file_def Let_def split: sum.splits prod.splits option.splits
      dest: rate_limited_frame)

lemma download_file_blacklist:
  "blacklisted_tokens (snd (download_file cfg req fid auth now s)) = blacklisted_tokens s"
  by (auto simp: download_file_def split: sum.splits prod.splits option.splits
      dest: rate_limited_frame)

lemma list_files_blacklist:
  "blacklisted_tokens (snd (list_files cfg req p ps auth now s)) = blacklisted_tokens s"
  by (auto simp: list_files_def Let_def split: sum.splits prod.splits dest: rate_limited_frame)

lemma delete_file_blacklist:
  "blacklisted_tokens (snd (delete_file cfg req fid auth now s)) = blacklisted_tokens s"
  by (auto simp: delete_file_def split: sum.splits prod.splits option.splits
      dest: rate_limited_frame)

lemma list_all_tenants_blacklist:
  "blacklisted_tokens (snd (list_all_tenants cfg req auth now s)) = blacklisted_tokens s"
  by (auto simp: list_all_tenants_def split: sum.splits prod.splits dest: rate_limited_frame)

lemma get_system_stats_blacklist:
  "blacklisted_tokens (snd (get_system_stats cfg req auth now s)) = blacklisted_tokens s"
  by (auto simp: get_system_stats_def split: sum.splits prod.splits dest: rate_limited_frame)

lemmas handler_blacklist =
  health_check_blacklist register_tenant_blacklist login_blacklist logout_state
  list_users_blacklist create_user_blacklist get_user_blacklist update_user_blacklist
  delete_user_blacklist create_users_bulk_blacklist upload_file_blacklist
  download_file_blacklist list_files_blacklist delete_file_blacklist
  list_all_tenants_blacklist get_system_stats_blacklist

lemma handle_blacklist_mono:
  assumes "opn \<noteq> ResetAllData"
  shows "blacklisted_tokens s \<subseteq> blacklisted_tokens (snd (handle cfg lib opn now s))"
  using assms refresh_tokens_blacklist [of s cfg _ now]
  by (cases opn) (simp_all add: handler_blacklist)

lemma run_blacklist_mono:
  assumes "ResetAllData \<notin> fst ` set ops"
  shows "blacklisted_tokens s \<subseteq> blacklisted_tokens (run cfg lib ops s)"
  using assms
proof (induction ops arbitrary: s)
  case Nil
  then show ?case by simp
next
  case (Cons a ops)
  obtain opn now where a: "a = (opn, now)" by (cases a)
  with Cons.prems have "opn \<noteq> ResetAllData" by auto
  then have "blacklisted_tokens s \<subseteq> blacklisted_tokens (snd (handle cfg lib opn now s))"
    by (rule handle_blacklist_mono)
  moreover have "blacklisted_tokens (snd (handle cfg lib opn now s))
      \<subseteq> blacklisted_tokens (run cfg lib ops (snd (handle cfg lib opn now s)))"
    using Cons.prems by (intro Cons.IH) auto
  ultimately show ?case using a by auto
qed

text \<open>
  Claim C9, as amended. Every route other than the test helper \<open>POST /test/reset\<close>
  leaves the revocation set a superset of what it was; the test helper empties it.
\<close>

theorem blacklist_grows_except_reset:
  "(opn \<noteq> ResetAllData
      \<longrightarrow> blacklisted_tokens s \<subseteq> blacklisted_tokens (snd (handle cfg lib opn now s)))
   \<and> blacklisted_tokens (snd (handle cfg lib ResetAllData now s)) = {}"
  using handle_blacklist_mono [of opn s cfg lib now] by (simp add: reset_all_data_def)

theorem blacklist_grows_except_reset_witness:
  "RefreshTokens alice_access \<noteq> ResetAllData
   \<and> blacklisted_tokens revoked_state
       \<subseteq> blacklisted_tokens
           (snd (handle default_settings toy_bcrypt (RefreshTokens alice_access) 2000
                   revoked_state))
   \<and> blacklisted_tokens (snd (handle default_settings toy_bcrypt ResetAllData 2000 revoked_state))
       = {}"
  using blacklist_grows_except_reset
          [of "RefreshTokens alice_access" revoked_state default_settings toy_bcrypt 2000]
  by simp

text \<open>
  The claim as stated fails: the test helper is a route of the program, and after it a
  token that was revoked is no longer in the set.
\<close>

theorem reset_empties_blacklist_counterexample:
  "alice_refresh \<in> blacklisted_tokens revoked_state
   \<and> alice_refresh \<notin> blacklisted_tokens
        (snd (handle default_settings toy_bcrypt ResetAllData 3000 revoked_state))
   \<and> \<not> blacklisted_tokens revoked_state
        \<subseteq> blacklisted_tokens
            (snd (handle default_settings toy_bcrypt ResetAllData 3000 revoked_state))"
  by (simp add: revoked_state_def reset_all_data_def)

section \<open>Refresh rotation\<close>

text \<open>
  What rotation does achieve. The first presentation of a refresh token that decodes, is
  of kind refresh, is not revoked and names an existing active user succeeds: it returns
  the token pair issued from that user's record and, in the same step, puts the presented
  token into the revocation set. After any further requests that do not include the test
  reset, the token is still in the set and presenting it again never succeeds; it fails
  with \<open>Revoked\<close> whenever the token still passes the signature and expiry check.
\<close>

lemma refresh_rotation:
  assumes "decode_token cfg presented now = Inr claims"
    and "map_of claims ''type'' = Some (JStr ''refresh'')"
    and "presented \<notin> blacklisted_tokens s"
    and "map_of claims ''user_id'' = Some (JStr uid)"
    and "map_of (users_db s) uid = Some user"
    and "u_is_active user"
    and "ResetAllData \<notin> fst ` set ops"
  shows "refresh_tokens cfg presented now s =
           (Inr (TokenPairResponse (token_pair cfg now user)),
            s\<lparr>blacklisted_tokens := insert presented (blacklisted_tokens s)\<rparr>)
       \<and> presented \<in> blacklisted_tokens
            (run cfg lib ops (snd (refresh_tokens cfg presented now s)))
       \<and> (\<exists>e. fst (refresh_tokens cfg presented later
                    (run cfg lib ops (snd (refresh_tokens cfg presented now s)))) = Inl e)
       \<and> ((\<exists>c. decode_token cfg presented later = Inr c)
          \<longrightarrow> refresh_tokens cfg presented later
                 (run cfg lib ops (snd (refresh_tokens cfg presented now s)))
               = (Inl Revoked, run cfg lib ops (snd (refresh_tokens cfg presented now s))))"
proof -
  let ?s1 = "s\<lparr>blacklisted_tokens := insert presented (blacklisted_tokens s)\<rparr>"
  have first: "refresh_tokens cfg presented now s =
      (Inr (TokenPairResponse (token_pair cfg now user)), ?s1)"
    using assms(1-6) by (rule refresh_tokens_valid)
  let ?s2 = "run cfg lib ops (snd (refresh_tokens cfg presented now s))"
  have "blacklisted_tokens ?s1 \<subseteq> blacklisted_tokens (run cfg lib ops ?s1)"
    using assms(7) by (rule run_blacklist_mono)
  then have kept: "presented \<in> blacklisted_tokens ?s2"
    using first by auto
  have fails: "\<exists>e. fst (refresh_tokens cfg presented later ?s2) = Inl e"
    using refresh_tokens_blacklisted_fails [OF kept, of cfg later] by auto
  have revoked: "refresh_tokens cfg presented later ?s2 = (Inl Revoked, ?s2)"
    if "\<exists>c. decode_token cfg presented later = Inr c"
  proof -
    from that obtain c where c: "decode_token cfg presented later = Inr c" by blast
    have "c = claims"
      using decode_token_claims [OF c] decode_token_claims [OF assms(1)] by simp
    with c assms(2) kept show ?thesis by (intro refresh_tokens_revoked) auto
  qed
  from first kept fails revoked show ?thesis by blast
qed

lemma alice_in_acme:
  "map_of (users_db acme_state) ''u1'' = Some alice" "u_is_active alice"
  "alice_refresh \<notin> blacklisted_tokens acme_state"
  by (simp_all add: acme_state_def initial_state_def alice_def)

lemma between_ops_no_reset: "ResetAllData \<notin> fst ` set between_ops"
  by (simp add: between_ops_def)

lemma refresh_alice_ok:
  "refresh_tokens default_settings alice_refresh 2000 acme_state =
     (Inr (TokenPairResponse (token_pair default_settings 2000 alice)),
      acme_state\<lparr>blacklisted_tokens := insert alice_refresh (blacklisted_tokens acme_state)\<rparr>)"
proof -
  have "map_of [(''user_id'', JStr ''u1''), (''tenant_id'', JStr ''t1''),
      (''exp'', JInt 605800), (''type'', JStr ''refresh'')] ''type'' = Some (JStr ''refresh'')"
    and "map_of [(''user_id'', JStr ''u1''), (''tenant_id'', JStr ''t1''),
      (''exp'', JInt 605800), (''type'', JStr ''refresh'')] ''user_id'' = Some (JStr ''u1'')"
    by simp_all
  with decode_alice_refresh_2000 alice_in_acme show ?thesis
    by (intro refresh_tokens_valid) auto
qed

lemma refresh_rotation_example:
  "decode_token default_settings alice_refresh 2000 =
     Inr [(''user_id'', JStr ''u1''), (''tenant_id'', JStr ''t1''), (''exp'', JInt 605800),
          (''type'', JStr ''refresh'')]
   \<and> alice_refresh \<notin> blacklisted_tokens acme_state
   \<and> map_of (users_db acme_state) ''u1'' = Some alice
   \<and> u_is_active alice
   \<and> ResetAllData \<notin> fst ` set between_ops
   \<and> refresh_tokens default_settings alice_refresh 2000 acme_state =
       (Inr (TokenPairResponse (token_pair default_settings 2000 alice)),
        acme_state\<lparr>blacklisted_tokens := insert alice_refresh (blacklisted_tokens acme_state)\<rparr>)
   \<and> alice_refresh \<in> blacklisted_tokens
        (run default_settings toy_bcrypt between_ops
           (snd (refresh_tokens default_settings alice_refresh 2000 acme_state)))
   \<and> refresh_tokens default_settings alice_refresh 3000
        (run default_settings toy_bcrypt between_ops
           (snd (refresh_tokens default_settings alice_refresh 2000 acme_state)))
      = (Inl Revoked,
         run default_settings toy_bcrypt between_ops
           (snd (refresh_tokens default_settings alice_refresh 2000 acme_state)))"
proof -
  have ty: "map_of [(''user_id'', JStr ''u1''), (''tenant_id'', JStr ''t1''),
      (''exp'', JInt 605800), (''type'', JStr ''refresh'')] ''type'' = Some (JStr ''refresh'')"
    and id: "map_of [(''user_id'', JStr ''u1''), (''tenant_id'', JStr ''t1''),
      (''exp'', JInt 605800), (''type'', JStr ''refresh'')] ''user_id'' = Some (JStr ''u1'')"
    by simp_all
  note r = refresh_rotation [OF decode_alice_refresh_2000 ty alice_in_acme(3) id
      alice_in_acme(1,2) between_ops_no_reset, of toy_bcrypt 3000]
  have "refresh_tokens default_settings alice_refresh 2000 acme_state =
       (Inr (TokenPairResponse (token_pair default_settings 2000 alice)),
        acme_state\<lparr>blacklisted_tokens := insert alice_refresh (blacklisted_tokens acme_state)\<rparr>)
   \<and> alice_refresh \<in> blacklisted_tokens
        (run default_settings toy_bcrypt between_ops
           (snd (refresh_tokens default_settings alice_refresh 2000 acme_state)))
   \<and> refresh_tokens default_settings alice_refresh 3000
        (run default_settings toy_bcrypt between_ops
           (snd (refresh_tokens default_settings alice_refresh 2000 acme_state)))
      = (Inl Revoked,
         run default_settings toy_bcrypt between_ops
           (snd (refresh_tokens default_settings alice_refresh 2000 acme_state)))"
    using r decode_alice_refresh_3000 by blast
  with decode_alice_refresh_2000 alice_in_acme between_ops_no_reset show ?thesis by blast
qed

lemma Expired_neq_Revoked: "Expired \<noteq> Revoked"
  by (simp add: Expired_def Revoked_def)

text \<open>
  Two later presentations that do not end in \<open>Revoked\<close>. Alice's refresh token, issued
  at 1000, is consumed at 2000. Presented again at 700000, after its expiry at 605800, it
  fails with \<open>Expired\<close>. And after the test reset it is no longer in the revocation set;
  presented again at 3000 it fails because the user store is empty.
\<close>

lemma second_presentation_after_expiry_or_reset:
  "fst (refresh_tokens default_settings alice_refresh 2000 acme_state)
     = Inr (TokenPairResponse (token_pair default_settings 2000 alice))
   \<and> fst (refresh_tokens default_settings alice_refresh 700000
            (snd (refresh_tokens default_settings alice_refresh 2000 acme_state)))
       = Inl Expired
   \<and> Expired \<noteq> Revoked
   \<and> alice_refresh \<notin> blacklisted_tokens
        (snd (reset_all_data (snd (refresh_tokens default_settings alice_refresh 2000 acme_state))))
   \<and> fst (refresh_tokens default_settings alice_refresh 3000
        (snd (reset_all_data (snd (refresh_tokens default_settings alice_refresh 2000 acme_state)))))
       = Inl (HTTPException 401 (Text ''User not found or inactive'') [])
   \<and> HTTPException 401 (Text ''User not found or inactive'') [] \<noteq> Revoked"
proof -
  have e: "decode_token default_settings alice_refresh 700000 = Inl Expired"
    by (simp add: alice_refresh_eq decode_token_expired)
  show ?thesis
    by (simp add: refresh_alice_ok Expired_neq_Revoked)
       (simp add: refresh_tokens_def e decode_alice_refresh_3000 reset_all_data_def getitem_def
          Revoked_def HTTP_401_UNAUTHORIZED_def)
qed

lemma login_alice:
  "login default_settings toy_bcrypt alice_login 1000 acme_state =
     (Inr (TokenPairResponse (token_pair default_settings 1000 alice)), acme_state)"
  by (simp add: login_def alice_login_def acme_state_def initial_state_def dict_values_def
      verify_password_def toy_bcrypt_def bcrypt_prefixed_def alice_def)

lemma login_alice_refresh_token:
  "refresh_token (token_pair default_settings 1000 alice) = alice_refresh"
  by (simp add: token_pair_def alice_refresh_def alice_def)

lemma same_second_pair:
  "refresh_token (token_pair default_settings (1000 + 1 / 2) alice) = alice_refresh"
  by (simp add: token_pair_def alice_refresh_eq create_refresh_token_def jwt_encode_def
      default_settings_def alice_def)

lemma decode_alice_refresh_same_second:
  "decode_token default_settings alice_refresh (1000 + 1 / 2) =
     Inr [(''user_id'', JStr ''u1''), (''tenant_id'', JStr ''t1''), (''exp'', JInt 605800),
          (''type'', JStr ''refresh'')]"
  by (simp add: alice_refresh_eq decode_token_def jwt_decode_def)

lemma refresh_alice_same_second:
  "refresh_tokens default_settings alice_refresh (1000 + 1 / 2) acme_state =
     (Inr (TokenPairResponse (token_pair default_settings (1000 + 1 / 2) alice)),
      acme_state\<lparr>blacklisted_tokens := insert alice_refresh (blacklisted_tokens acme_state)\<rparr>)"
proof -
  have "map_of [(''user_id'', JStr ''u1''), (''tenant_id'', JStr ''t1''),
      (''exp'', JInt 605800), (''type'', JStr ''refresh'')] ''type'' = Some (JStr ''refresh'')"
    and "map_of [(''user_id'', JStr ''u1''), (''tenant_id'', JStr ''t1''),
      (''exp'', JInt 605800), (''type'', JStr ''refresh'')] ''user_id'' = Some (JStr ''u1'')"
    by simp_all
  with decode_alice_refresh_same_second alice_in_acme show ?thesis
    by (intro refresh_tokens_valid) auto
qed

text \<open>
  Claim C6. A first presentation of a valid, unrevoked refresh token is to return a new
  access and refresh pair and to revoke the presented token, so that the old token is dead
  and the new one is usable. The handler says as much (\<open>Create new tokens\<close>,
  \<open>Blacklist old refresh token\<close>), but a refresh token is determined by the user and
  the whole second of its expiry. Alice logs in at 1000 and presents the refresh token
  she receives half a second later: the refresh succeeds, the refresh token it returns
  is the very string she presented, the same step has put that string into the
  revocation set, and the first use of the returned token fails with \<open>Revoked\<close>.
\<close>

theorem same_second_refresh_returns_revoked_token:
  "login default_settings toy_bcrypt alice_login 1000 acme_state =
     (Inr (TokenPairResponse (token_pair default_settings 1000 alice)), acme_state)
   \<and> refresh_token (token_pair default_settings 1000 alice) = alice_refresh
   \<and> refresh_tokens default_settings alice_refresh (1000 + 1 / 2) acme_state =
       (Inr (TokenPairResponse (token_pair default_settings (1000 + 1 / 2) alice)),
        acme_state\<lparr>blacklisted_tokens := insert alice_refresh (blacklisted_tokens acme_state)\<rparr>)
   \<and> refresh_token (token_pair default_settings (1000 + 1 / 2) alice) = alice_refresh
   \<and> refresh_token (token_pair default_settings (1000 + 1 / 2) alice)
       \<in> blacklisted_tokens
           (snd (refresh_tokens default_settings alice_refresh (1000 + 1 / 2) acme_state))
   \<and> refresh_tokens default_settings
        (refresh_token (token_pair default_settings (1000 + 1 / 2) alice)) 2000
        (snd (refresh_tokens default_settings alice_refresh (1000 + 1 / 2) acme_state))
      = (Inl Revoked,
         snd (refresh_tokens default_settings alice_refresh (1000 + 1 / 2) acme_state))"
proof -
  let ?s1 = "acme_state\<lparr>blacklisted_tokens :=
               insert alice_refresh (blacklisted_tokens acme_state)\<rparr>"
  have ty: "map_of [(''user_id'', JStr ''u1''), (''tenant_id'', JStr ''t1''),
      (''exp'', JInt 605800), (''type'', JStr ''refresh'')] ''type'' = Some (JStr ''refresh'')"
    by simp
  have inset: "alice_refresh \<in> blacklisted_tokens ?s1" by simp
  have again: "refresh_tokens default_settings alice_refresh 2000 ?s1 = (Inl Revoked, ?s1)"
    using decode_alice_refresh_2000 ty inset by (rule refresh_tokens_revoked)
  from login_alice login_alice_refresh_token refresh_alice_same_second same_second_pair
    inset again
  show ?thesis by simp
qed

section \<open>Logout\<close>

text \<open>
  Claim C10. A successful logout returns its message and leaves the whole state as it
  was: the revocation set holds the same tokens as before, the presented token has
  validated, and every request made afterwards is answered exactly as it would have been
  without the logout.
\<close>

theorem logout_changes_nothing:
  assumes "handle cfg lib (Logout authorization) now s = (Inr r, s')"
  shows "s' = s
       \<and> r = MessageResponse ''Logged out successfully''
       \<and> (\<forall>tok. tok \<in> blacklisted_tokens s' \<longleftrightarrow> tok \<in> blacklisted_tokens s)
       \<and> (\<exists>who. get_current_user cfg authorization now = Inr who)
       \<and> (\<forall>opn later. handle cfg lib opn later s' = handle cfg lib opn later s)"
  using assms by (auto simp: logout_def split: sum.splits)

lemma logout_alice:
  "handle default_settings toy_bcrypt (Logout (bearer alice_access)) 2000 acme_state
     = (Inr (MessageResponse ''Logged out successfully''), acme_state)"
  by (simp add: logout_def alice_validates)

theorem logout_changes_nothing_witness:
  "handle default_settings toy_bcrypt (Logout (bearer alice_access)) 2000 acme_state
     = (Inr (MessageResponse ''Logged out successfully''), acme_state)
   \<and> alice_access \<notin> blacklisted_tokens acme_state
   \<and> alice_access \<notin> blacklisted_tokens
        (snd (handle default_settings toy_bcrypt (Logout (bearer alice_access)) 2000 acme_state))
   \<and> get_current_user default_settings (bearer alice_access) 2000 = Inr alice_data
   \<and> handle default_settings toy_bcrypt (Logout (bearer alice_access)) 2000
        (snd (handle default_settings toy_bcrypt (Logout (bearer alice_access)) 2000 acme_state))
      = (Inr (MessageResponse ''Logged out successfully''), acme_state)"
proof -
  have n: "alice_access \<notin> blacklisted_tokens acme_state"
    by (simp add: acme_state_def initial_state_def)
  from logout_changes_nothing [OF logout_alice] logout_alice n alice_validates
  show ?thesis by simp
qed

end
